theory Spec2Isabelle
  imports Complex_Main "HOL-Library.Word"
begin

section \<open>Food freshness detector: a shallow embedding of the backend\<close>

text \<open>
  The development follows the Python backend file by file:
  \<^verbatim>\<open>app/utils/preprocessing.py\<close>, \<^verbatim>\<open>app/models/loader.py\<close>,
  \<^verbatim>\<open>app/inference/pipeline.py\<close> and \<^verbatim>\<open>app/routers/predict.py\<close>.

  Conventions of the embedding.
  \<^item> Python \<^verbatim>\<open>float\<close> values (box coordinates, confidences, clock readings) are
    real numbers, and comparisons are exact.  Arithmetic is exact too, except in the
    confidence blend of \<^verbatim>\<open>run_inference\<close>, the one computed value a property is
    about: there every float operation rounds its exact result with the rounding function
    \<open>fl\<close> of the environment (for binary64, round to nearest, ties to even).
  \<^item> A raised exception is the \<open>Inl\<close> branch of a sum \<open>exc + 'a\<close>.  An exception is
    represented by the class an \<^verbatim>\<open>except\<close> clause of the source can tell apart, with
    its message.
  \<^item> Calls into Pillow, NumPy, OpenCV, PyTorch, torchvision and Ultralytics are fields
    of one record of external functions, \<open>ext\<close>, passed to every function that calls
    them; each may raise.
  \<^item> The module-level singleton \<^verbatim>\<open>_bundle\<close> is an explicit state of type
    \<open>model_bundle option\<close>.
  \<^item> The value drawn by \<^verbatim>\<open>random.uniform(0.0, 0.20)\<close> is an argument \<open>u\<close>.
\<close>

subsection \<open>Exceptions and Python built-ins\<close>

datatype exc =
    RuntimeError string
  | ValueError string
  | IndexError string
  | KeyError string
  | ValidationError string
  | OtherException string

text \<open>
  The constructors are the classes deriving from \<^verbatim>\<open>Exception\<close> that the source
  raises or catches by name; \<open>OtherException\<close> stands for every other such class.
  \<^verbatim>\<open>str(exc)\<close> is the message the exception was raised with.
\<close>

fun exc_str :: "exc \<Rightarrow> string" where
  "exc_str (RuntimeError m) = m"
| "exc_str (ValueError m) = m"
| "exc_str (IndexError m) = m"
| "exc_str (KeyError m) = m"
| "exc_str (ValidationError m) = m"
| "exc_str (OtherException m) = m"

text \<open>
  \<^verbatim>\<open>round(x, n)\<close>: the nearest multiple of \<open>10\<^sup>-\<^sup>n\<close>, a tie going to the even
  neighbour.
\<close>

definition round_half_even :: "real \<Rightarrow> int" where
  "round_half_even x =
     (let f = \<lfloor>x\<rfloor>; d = x - of_int f
      in if d < 1 / 2 then f
         else if 1 / 2 < d then f + 1
         else if even f then f else f + 1)"

definition py_round :: "real \<Rightarrow> nat \<Rightarrow> real" where
  "py_round x n = of_int (round_half_even (x * 10 ^ n)) / 10 ^ n"

text \<open>\<^verbatim>\<open>xs[i]\<close> on a list: a negative index counts from the end.\<close>

definition py_index :: "'a list \<Rightarrow> int \<Rightarrow> exc + 'a" where
  "py_index xs i =
     (if 0 \<le> i \<and> i < int (length xs) then Inr (xs ! nat i)
      else if i < 0 \<and> - int (length xs) \<le> i then Inr (xs ! nat (int (length xs) + i))
      else Inl (IndexError ''list index out of range''))"

text \<open>\<^verbatim>\<open>str.lower()\<close> and \<^verbatim>\<open>str.replace(" ", "_")\<close>, on ASCII strings.\<close>

definition char_lower :: "char \<Rightarrow> char" where
  "char_lower c =
     (case map_of (zip ''ABCDEFGHIJKLMNOPQRSTUVWXYZ'' ''abcdefghijklmnopqrstuvwxyz'') c of
        None \<Rightarrow> c
      | Some l \<Rightarrow> l)"

definition str_lower :: "string \<Rightarrow> string" where
  "str_lower s = map char_lower s"

definition replace_space :: "string \<Rightarrow> string" where
  "replace_space s = map (\<lambda>c. if c = CHR '' '' then CHR ''_'' else c) s"

text \<open>\<^verbatim>\<open>str(n)\<close> for a non-negative integer.\<close>

definition digit_char :: "nat \<Rightarrow> char" where
  "digit_char d = ''0123456789'' ! d"

fun str_nat :: "nat \<Rightarrow> string" where
  "str_nat n = (if n < 10 then [digit_char n] else str_nat (n div 10) @ [digit_char (n mod 10)])"

declare str_nat.simps [simp del]

subsection \<open>Images, arrays and the external libraries\<close>

type_synonym byte = "8 word"

record pil_image =
  img_size :: "nat \<times> nat"
  img_mode :: string
  img_data :: "byte list"

text \<open>
  A cropped image, as \<^verbatim>\<open>pil_image.crop((x1, y1, x2, y2))\<close> returns it: the image
  it was cut from and the rectangle (left, upper, right, lower) that was cut.
\<close>

record crop_image =
  crop_source :: pil_image
  crop_region :: "real \<times> real \<times> real \<times> real"

text \<open>NumPy arrays and torch tensors: a shape and the flattened values.\<close>

record ndarray =
  shape :: "nat list"
  flat :: "real list"

subsection \<open>Crop rectangles\<close>

text \<open>
  Width and height of the rectangle the image library receives.  Pillow rounds each
  bound to the nearest integer (\<^verbatim>\<open>int(round(x))\<close>) to obtain the pixel size of the
  crop.
\<close>

fun region_width :: "real \<times> real \<times> real \<times> real \<Rightarrow> real" where
  "region_width (l, u, r, b) = r - l"

fun region_height :: "real \<times> real \<times> real \<times> real \<Rightarrow> real" where
  "region_height (l, u, r, b) = b - u"

fun pixel_width :: "real \<times> real \<times> real \<times> real \<Rightarrow> int" where
  "pixel_width (l, u, r, b) = round_half_even r - round_half_even l"

fun pixel_height :: "real \<times> real \<times> real \<times> real \<Rightarrow> int" where
  "pixel_height (l, u, r, b) = round_half_even b - round_half_even u"

subsection \<open>Detector, classifier and the record of external functions\<close>

record det_box =
  box_cls :: int
  box_conf :: real
  box_xyxy :: "real list"

text \<open>
  An Ultralytics model: the \<^verbatim>\<open>names\<close> dictionary, and the call
  \<^verbatim>\<open>model(image, verbose=False)\<close>, which returns one list of boxes per result.
\<close>

record yolo_model =
  names :: "int \<Rightarrow> string option"
  forward :: "pil_image \<Rightarrow> exc + det_box list list"

text \<open>A classifier is its \<^verbatim>\<open>predict(tensor)\<close> method: class index and confidence.\<close>

type_synonym classifier = "ndarray \<Rightarrow> exc + int \<times> real"

type_synonym state_dict = "(string \<times> ndarray) list"

text \<open>What \<^verbatim>\<open>torch.load\<close> returns: a checkpoint dictionary or a model object.\<close>

datatype loaded_object =
    CheckpointDict "(string \<times> state_dict) list"
  | ModelObject classifier

record ext =
  fl :: "real \<Rightarrow> real"
  Image_open :: "byte list \<Rightarrow> exc + pil_image"
  convert :: "pil_image \<Rightarrow> string \<Rightarrow> exc + pil_image"
  pil_crop :: "pil_image \<Rightarrow> real \<times> real \<times> real \<times> real \<Rightarrow> exc + crop_image"
  np_array :: "crop_image \<Rightarrow> exc + ndarray"
  cvtColor :: "ndarray \<Rightarrow> string \<Rightarrow> exc + ndarray"
  clahe_apply :: "real \<Rightarrow> nat \<times> nat \<Rightarrow> ndarray \<Rightarrow> exc + ndarray"
  get_channel :: "ndarray \<Rightarrow> nat \<Rightarrow> ndarray"
  set_channel :: "ndarray \<Rightarrow> nat \<Rightarrow> ndarray \<Rightarrow> ndarray"
  np_mean :: "ndarray \<Rightarrow> real"
  FRESHNESS_TRANSFORM :: "crop_image \<Rightarrow> exc + ndarray"
  unsqueeze :: "ndarray \<Rightarrow> nat \<Rightarrow> ndarray"
  tensor_to :: "ndarray \<Rightarrow> string \<Rightarrow> exc + ndarray"
  cuda_is_available :: bool
  torch_device :: "string \<Rightarrow> exc + string"
  path_exists :: "string \<Rightarrow> bool"
  YOLO :: "string \<Rightarrow> exc + yolo_model"
  yolo_to :: "yolo_model \<Rightarrow> string \<Rightarrow> exc + yolo_model"
  torch_load :: "string \<Rightarrow> string \<Rightarrow> exc + loaded_object"
  load_state_dict :: "state_dict \<Rightarrow> exc + classifier"
  module_to :: "classifier \<Rightarrow> string \<Rightarrow> exc + classifier"
  module_eval :: "classifier \<Rightarrow> classifier"

subsection \<open>\<^verbatim>\<open>preprocessing.py\<close>: decoding, colour conversion, tensors\<close>

definition bytes_to_pil :: "ext \<Rightarrow> byte list \<Rightarrow> exc + pil_image" where
  "bytes_to_pil L image_bytes =
     (case Image_open L image_bytes of
        Inl e \<Rightarrow> Inl (ValueError (''Cannot decode image: '' @ exc_str e))
      | Inr img \<Rightarrow>
          (case convert L img ''RGB'' of
             Inl e \<Rightarrow> Inl (ValueError (''Cannot decode image: '' @ exc_str e))
           | Inr rgb \<Rightarrow> Inr rgb))"

text \<open>
  \<^verbatim>\<open>crop_bbox\<close> ends in the library call \<^verbatim>\<open>pil_image.crop(...)\<close>, which may raise
  (Pillow raises \<^verbatim>\<open>ValueError\<close> for a rectangle whose right bound is less than its
  left bound, or lower less than upper).
\<close>

definition crop_bbox :: "ext \<Rightarrow> pil_image \<Rightarrow> real list \<Rightarrow> real \<Rightarrow> exc + crop_image" where
  "crop_bbox L pil_image box padding =
     (case img_size pil_image of (w, h) \<Rightarrow>
        (case box of
           [x1, y1, x2, y2] \<Rightarrow>
             (let pad_x = (x2 - x1) * padding;
                  pad_y = (y2 - y1) * padding;
                  x1' = max 0 (x1 - pad_x);
                  y1' = max 0 (y1 - pad_y);
                  x2' = min (real w) (x2 + pad_x);
                  y2' = min (real h) (y2 + pad_y)
              in pil_crop L pil_image (x1', y1', x2', y2'))
         | _ \<Rightarrow> Inl (ValueError ''wrong number of values to unpack'')))"

definition pil_to_cv2 :: "ext \<Rightarrow> crop_image \<Rightarrow> exc + ndarray" where
  "pil_to_cv2 L pil_image =
     (case np_array L pil_image of
        Inl e \<Rightarrow> Inl e
      | Inr a \<Rightarrow> cvtColor L a ''COLOR_RGB2BGR'')"

definition enhance_contrast :: "ext \<Rightarrow> ndarray \<Rightarrow> exc + ndarray" where
  "enhance_contrast L bgr_array =
     (case cvtColor L bgr_array ''COLOR_BGR2LAB'' of
        Inl e \<Rightarrow> Inl e
      | Inr lab \<Rightarrow>
          (case clahe_apply L 2 (8, 8) (get_channel L lab 0) of
             Inl e \<Rightarrow> Inl e
           | Inr l0 \<Rightarrow> cvtColor L (set_channel L lab 0 l0) ''COLOR_LAB2BGR''))"

definition to_freshness_tensor :: "ext \<Rightarrow> crop_image \<Rightarrow> exc + ndarray" where
  "to_freshness_tensor L pil_image =
     (case FRESHNESS_TRANSFORM L pil_image of
        Inl e \<Rightarrow> Inl e
      | Inr t \<Rightarrow> Inr (unsqueeze L t 0))"

subsection \<open>\<^verbatim>\<open>loader.py\<close>\<close>

record model_bundle =
  yolo :: yolo_model
  freshness_classifier :: "classifier option"
  device :: string
  food_labels :: "string list"
  freshness_labels :: "string list"

definition FOOD_LABELS :: "string list" where
  "FOOD_LABELS =
     [''apple'', ''banana'', ''orange'', ''strawberry'', ''grape'',
      ''mango'', ''pineapple'', ''watermelon'', ''lemon'', ''cherry'',
      ''carrot'', ''broccoli'', ''tomato'', ''cucumber'', ''lettuce'',
      ''potato'', ''onion'', ''pepper'', ''avocado'', ''corn'',
      ''bread'', ''cake'', ''sandwich'', ''pizza'', ''hotdog'',
      ''sushi'', ''steak'', ''chicken'', ''fish'', ''egg'']"

definition resolve_device :: "ext \<Rightarrow> string \<Rightarrow> exc + string" where
  "resolve_device L device_str =
     (if device_str = ''cuda'' \<and> \<not> cuda_is_available L then torch_device L ''cpu''
      else torch_device L device_str)"

text \<open>
  The weights path is passed on as given (\<^verbatim>\<open>str(Path(weights_path))\<close> in the
  source); \<open>yolo_to\<close> is \<^verbatim>\<open>model.to(str(device))\<close>.
\<close>

definition load_yolo :: "ext \<Rightarrow> string \<Rightarrow> string \<Rightarrow> exc + yolo_model" where
  "load_yolo L weights_path dev =
     (case (if path_exists L weights_path then YOLO L weights_path
            else YOLO L ''yolov8n.pt'') of
        Inl e \<Rightarrow> Inl e
      | Inr model \<Rightarrow> yolo_to L model dev)"

text \<open>
  Every exception raised inside the \<^verbatim>\<open>try\<close> block (also the \<^verbatim>\<open>KeyError\<close> of a
  checkpoint without \<^verbatim>\<open>"state_dict"\<close>) is caught and gives \<^verbatim>\<open>None\<close>.
\<close>

definition load_freshness_classifier :: "ext \<Rightarrow> string \<Rightarrow> string \<Rightarrow> classifier option" where
  "load_freshness_classifier L weights_path dev =
     (if \<not> path_exists L weights_path then None
      else
        (case torch_load L weights_path dev of
           Inl e \<Rightarrow> None
         | Inr (CheckpointDict d) \<Rightarrow>
             (case map_of d ''state_dict'' of
                None \<Rightarrow> None
              | Some sd \<Rightarrow>
                  (case load_state_dict L sd of
                     Inl e \<Rightarrow> None
                   | Inr net \<Rightarrow>
                       (case module_to L net dev of
                          Inl e \<Rightarrow> None
                        | Inr net' \<Rightarrow> Some (module_eval L net'))))
         | Inr (ModelObject model) \<Rightarrow>
             (case module_to L model dev of
                Inl e \<Rightarrow> None
              | Inr model' \<Rightarrow> Some (module_eval L model'))))"

text \<open>
  The global \<^verbatim>\<open>_bundle\<close> is the last argument; the function returns what the call
  returns or raises, and the new value of the global.
\<close>

definition load_models ::
  "ext \<Rightarrow> string \<Rightarrow> string \<Rightarrow> string \<Rightarrow> model_bundle option
     \<Rightarrow> (exc + model_bundle) \<times> model_bundle option" where
  "load_models L yolo_path freshness_path device_str bundle_var =
     (case bundle_var of
        Some b \<Rightarrow> (Inr b, Some b)
      | None \<Rightarrow>
          (case resolve_device L device_str of
             Inl e \<Rightarrow> (Inl e, None)
           | Inr dev \<Rightarrow>
               (case load_yolo L yolo_path dev of
                  Inl e \<Rightarrow> (Inl e, None)
                | Inr y \<Rightarrow>
                    (let freshness = load_freshness_classifier L freshness_path dev;
                         b = \<lparr>yolo = y,
                              freshness_classifier = freshness,
                              device = dev,
                              food_labels = FOOD_LABELS,
                              freshness_labels = [''fresh'', ''semi-fresh'', ''spoiled'']\<rparr>
                     in (Inr b, Some b)))))"

definition get_bundle :: "model_bundle option \<Rightarrow> exc + model_bundle" where
  "get_bundle bundle_var =
     (case bundle_var of
        None \<Rightarrow> Inl (RuntimeError ''Models have not been loaded. Call load_models() first.'')
      | Some b \<Rightarrow> Inr b)"

text \<open>A sequence of calls of \<^verbatim>\<open>load_models\<close>, each in its own environment.\<close>

type_synonym load_call = "ext \<times> string \<times> string \<times> string"

fun load_calls ::
  "load_call list \<Rightarrow> model_bundle option
     \<Rightarrow> (exc + model_bundle) list \<times> model_bundle option" where
  "load_calls [] bundle_var = ([], bundle_var)"
| "load_calls ((L, yp, fp, ds) # cs) bundle_var =
     (case load_models L yp fp ds bundle_var of
        (r, bundle_var') \<Rightarrow>
          (case load_calls cs bundle_var' of
             (rs, bundle_var'') \<Rightarrow> (r # rs, bundle_var'')))"

subsection \<open>\<^verbatim>\<open>pipeline.py\<close>\<close>

definition COCO_FOOD_CLASSES :: "int set" where
  "COCO_FOOD_CLASSES =
     {46, 47, 48, 49, 50, 51, 52, 53, 54, 55,
      56, 57, 58, 59, 60, 61}"

record prediction_result =
  food :: string
  freshness :: string
  confidence :: real
  detected :: bool
  bbox :: "real list option"

definition heuristic_freshness :: "ext \<Rightarrow> crop_image \<Rightarrow> real \<Rightarrow> exc + string \<times> real" where
  "heuristic_freshness L crop u =
     (case pil_to_cv2 L crop of
        Inl e \<Rightarrow> Inl e
      | Inr bgr \<Rightarrow>
          (case enhance_contrast L bgr of
             Inl e \<Rightarrow> Inl e
           | Inr enhanced \<Rightarrow>
               (case cvtColor L enhanced ''COLOR_BGR2HSV'' of
                  Inl e \<Rightarrow> Inl e
                | Inr hsv \<Rightarrow>
                    (let saturation = np_mean L (get_channel L hsv 1);
                         val = np_mean L (get_channel L hsv 2)
                     in if saturation > 80 \<and> 60 < val \<and> val < 220
                        then Inr (''fresh'', py_round (75 / 100 + u) 2)
                        else if saturation > 40
                        then Inr (''semi-fresh'', py_round (55 / 100 + u) 2)
                        else Inr (''spoiled'', py_round (60 / 100 + u) 2)))))"

definition classify_freshness ::
  "ext \<Rightarrow> model_bundle \<Rightarrow> crop_image \<Rightarrow> real \<Rightarrow> exc + string \<times> real" where
  "classify_freshness L bundle crop u =
     (case freshness_classifier bundle of
        Some clf \<Rightarrow>
          (case to_freshness_tensor L crop of
             Inl e \<Rightarrow> Inl e
           | Inr t \<Rightarrow>
               (case tensor_to L t (device bundle) of
                  Inl e \<Rightarrow> Inl e
                | Inr tensor \<Rightarrow>
                    (case clf tensor of
                       Inl e \<Rightarrow> Inl e
                     | Inr (idx, c) \<Rightarrow>
                         (case py_index (freshness_labels bundle) idx of
                            Inl e \<Rightarrow> Inl e
                          | Inr label \<Rightarrow> Inr (label, py_round c 4)))))
      | None \<Rightarrow> heuristic_freshness L crop u)"

text \<open>
  The food filter of the detection loop: a box is skipped (\<^verbatim>\<open>continue\<close>) unless
  this holds.
\<close>

definition box_name :: "model_bundle \<Rightarrow> det_box \<Rightarrow> string" where
  "box_name bundle box =
     (case names (yolo bundle) (box_cls box) of None \<Rightarrow> ''food'' | Some n \<Rightarrow> n)"

definition is_food :: "model_bundle \<Rightarrow> det_box \<Rightarrow> bool" where
  "is_food bundle box =
     (\<not> (box_cls box \<notin> COCO_FOOD_CLASSES
         \<and> str_lower (box_name bundle box) \<notin> set (map str_lower (food_labels bundle))))"

text \<open>
  The \<^verbatim>\<open>for box in boxes\<close> loop, on the loop state
  (\<^verbatim>\<open>best_box\<close>, \<^verbatim>\<open>best_conf\<close>, \<^verbatim>\<open>best_label\<close>).
\<close>

type_synonym best = "real list option \<times> real \<times> string"

fun detect_loop :: "model_bundle \<Rightarrow> det_box list \<Rightarrow> best \<Rightarrow> best" where
  "detect_loop bundle [] st = st"
| "detect_loop bundle (box # boxes) (best_box, best_conf, best_label) =
     (if \<not> is_food bundle box
      then detect_loop bundle boxes (best_box, best_conf, best_label)
      else if box_conf box > best_conf
      then detect_loop bundle boxes
             (Some (box_xyxy box), box_conf box, replace_space (str_lower (box_name bundle box)))
      else detect_loop bundle boxes (best_box, best_conf, best_label))"

definition not_detected :: prediction_result where
  "not_detected =
     \<lparr>food = ''unknown'', freshness = ''unknown'', confidence = 0,
      detected = False, bbox = None\<rparr>"

text \<open>
  The blend \<^verbatim>\<open>round(float(best_conf) * 0.4 + freshness_conf * 0.6, 4)\<close> in float
  arithmetic: the two confidences are read as floats, the literals are the floats nearest
  0.4 and 0.6, each product and the sum are rounded, and \<^verbatim>\<open>round\<close> returns the float
  nearest the decimal it computes.
\<close>

definition run_inference ::
  "ext \<Rightarrow> pil_image \<Rightarrow> model_bundle \<Rightarrow> real \<Rightarrow> exc + prediction_result" where
  "run_inference L img bundle u =
     (case forward (yolo bundle) img of
        Inl e \<Rightarrow> Inl e
      | Inr results \<Rightarrow>
          (case (case results of
                   [] \<Rightarrow> (None, 0, ''unknown'')
                 | r0 # _ \<Rightarrow>
                     (if length r0 > 0 then detect_loop bundle r0 (None, 0, ''unknown'')
                      else (None, 0, ''unknown''))) of
             (best_box, best_conf, best_label) \<Rightarrow>
               (case best_box of
                  None \<Rightarrow> Inr not_detected
                | Some bb \<Rightarrow>
                    (if best_conf < 10 / 100 then Inr not_detected
                     else
                       (case crop_bbox L img bb (5 / 100) of
                          Inl e \<Rightarrow> Inl e
                        | Inr crop \<Rightarrow>
                            (case classify_freshness L bundle crop u of
                               Inl e \<Rightarrow> Inl e
                             | Inr (freshness_label, freshness_conf) \<Rightarrow>
                                 (let combined_conf =
                                        fl L (py_round
                                          (fl L (fl L (fl L best_conf * fl L (4 / 10))
                                                 + fl L (fl L freshness_conf * fl L (6 / 10)))) 4)
                                  in Inr \<lparr>food = best_label,
                                          freshness = freshness_label,
                                          confidence = combined_conf,
                                          detected = True,
                                          bbox = Some bb\<rparr>)))))))"

subsection \<open>\<^verbatim>\<open>predict.py\<close>\<close>

definition SUPPORTED_CONTENT_TYPES :: "string set" where
  "SUPPORTED_CONTENT_TYPES = {''image/jpeg'', ''image/png'', ''image/webp'', ''image/bmp''}"

definition MAX_FILE_SIZE_BYTES :: nat where
  "MAX_FILE_SIZE_BYTES = 10 * 1024 * 1024"

record upload_file =
  content_type :: "string option"
  file_bytes :: "byte list"

record prediction_response =
  resp_food :: string
  resp_freshness :: string
  resp_confidence :: real
  resp_detected :: bool
  inference_time_ms :: real

text \<open>
  What a call of the endpoint function ends with: the response it returns, the
  \<^verbatim>\<open>HTTPException\<close> it raises (status code and detail), or any other exception, which
  leaves the function uncaught.
\<close>

datatype outcome =
    Response prediction_response
  | HTTPException nat string
  | Uncaught exc

text \<open>
  The detail of the content-type error: the type as the f-string prints it, and the
  sorted accepted types joined by a comma and a space.
\<close>

definition unsupported_detail :: "string option \<Rightarrow> string" where
  "unsupported_detail ct =
     ''Unsupported content type '' @ [CHR 0x27]
       @ (case ct of None \<Rightarrow> ''None'' | Some c \<Rightarrow> c) @ [CHR 0x27]
       @ ''. Accepted: image/bmp, image/jpeg, image/png, image/webp''"

text \<open>
  \<^verbatim>\<open>PredictionResponse(...)\<close> validates its fields: \<^verbatim>\<open>confidence\<close> is declared
  with \<^verbatim>\<open>ge=0.0, le=1.0\<close>.
\<close>

definition PredictionResponse :: "string \<Rightarrow> string \<Rightarrow> real \<Rightarrow> bool \<Rightarrow> real \<Rightarrow> outcome" where
  "PredictionResponse f fr c d ms =
     (if 0 \<le> c \<and> c \<le> 1
      then Response \<lparr>resp_food = f, resp_freshness = fr, resp_confidence = c,
                     resp_detected = d, inference_time_ms = ms\<rparr>
      else Uncaught (ValidationError ''confidence''))"

text \<open>
  The endpoint.  \<open>bundle_var\<close> is the global \<^verbatim>\<open>_bundle\<close>, \<open>t0\<close> and \<open>t1\<close> are
  the two readings of \<^verbatim>\<open>time.perf_counter()\<close>.
\<close>

definition predict ::
  "ext \<Rightarrow> model_bundle option \<Rightarrow> upload_file \<Rightarrow> real \<Rightarrow> real \<Rightarrow> real \<Rightarrow> outcome" where
  "predict L bundle_var file t0 t1 u =
     (if content_type file \<notin> Some ` SUPPORTED_CONTENT_TYPES
      then HTTPException 400 (unsupported_detail (content_type file))
      else
        (let image_bytes = file_bytes file
         in if length image_bytes > MAX_FILE_SIZE_BYTES
            then HTTPException 422
                   (''File too large ('' @ str_nat (length image_bytes div 1024)
                      @ '' KB). Max 10 MB allowed.'')
            else
              (case bytes_to_pil L image_bytes of
                 Inl (ValueError m) \<Rightarrow> HTTPException 400 m
               | Inl e \<Rightarrow> Uncaught e
               | Inr pil_image \<Rightarrow>
                   (case (case get_bundle bundle_var of
                            Inl e \<Rightarrow> Inl e
                          | Inr bundle \<Rightarrow> run_inference L pil_image bundle u) of
                      Inl (RuntimeError m) \<Rightarrow>
                        HTTPException 500 ''Model inference failed. Please try again.''
                    | Inl e \<Rightarrow> Uncaught e
                    | Inr result \<Rightarrow>
                        (let elapsed_ms = py_round ((t1 - t0) * 1000) 2
                         in PredictionResponse (food result) (freshness result)
                              (confidence result) (detected result) elapsed_ms)))))"

subsection \<open>The pipeline as the specification words it\<close>

text \<open>
  The specification's food filter: the class id is one of the food categories 46 to 61 of
  the 80-category vocabulary, or the lower-cased class name equals a lower-cased food label
  of the bundle.
\<close>

definition spec_is_food :: "model_bundle \<Rightarrow> det_box \<Rightarrow> bool" where
  "spec_is_food bundle box =
     ((46 \<le> box_cls box \<and> box_cls box \<le> 61)
      \<or> (\<exists>l \<in> set (food_labels bundle). str_lower (box_name bundle box) = str_lower l))"

text \<open>
  The specification's selection: the first candidate, in detector output order, whose
  confidence no other candidate exceeds.
\<close>

definition spec_select :: "det_box list \<Rightarrow> det_box option" where
  "spec_select cs = find (\<lambda>b. \<forall>b' \<in> set cs. box_conf b' \<le> box_conf b) cs"

text \<open>The loop state the source sets when it takes a box.\<close>

definition best_of :: "model_bundle \<Rightarrow> det_box \<Rightarrow> best" where
  "best_of bundle b = (Some (box_xyxy b), box_conf b, replace_space (str_lower (box_name bundle b)))"

text \<open>
  The boxes the loop runs over: \<^verbatim>\<open>results[0].boxes\<close> when there is a result, none
  otherwise.
\<close>

definition first_boxes :: "det_box list list \<Rightarrow> det_box list" where
  "first_boxes results = (case results of [] \<Rightarrow> [] | r0 # _ \<Rightarrow> r0)"

text \<open>
  Steps 5 to 7 of the specification for a winning box: crop with 5 percent padding,
  estimate freshness, blend the confidences, build the result.
\<close>

definition spec_stage2 :: "ext \<Rightarrow> pil_image \<Rightarrow> model_bundle \<Rightarrow> real \<Rightarrow> det_box \<Rightarrow> exc + prediction_result" where
  "spec_stage2 L img bundle u w =
     (case crop_bbox L img (box_xyxy w) (5 / 100) of
        Inl e \<Rightarrow> Inl e
      | Inr crop \<Rightarrow>
          (case classify_freshness L bundle crop u of
             Inl e \<Rightarrow> Inl e
           | Inr (label, fc) \<Rightarrow>
               Inr \<lparr>food = replace_space (str_lower (box_name bundle w)),
                    freshness = label,
                    confidence =
                      fl L (py_round
                        (fl L (fl L (fl L (box_conf w) * fl L (4 / 10))
                               + fl L (fl L fc * fl L (6 / 10)))) 4),
                    detected = True,
                    bbox = Some (box_xyxy w)\<rparr>))"

text \<open>
  What the codec library says of a byte string: it opens and converts to RGB.
\<close>

definition decodable :: "ext \<Rightarrow> byte list \<Rightarrow> bool" where
  "decodable L bs =
     (case Image_open L bs of
        Inl e \<Rightarrow> False
      | Inr raw \<Rightarrow> (case convert L raw ''RGB'' of Inl e \<Rightarrow> False | Inr rgb \<Rightarrow> True))"

text \<open>
  Rounding to nearest in a set \<open>F\<close> of representable numbers: the result is
  representable and no representable number is closer to the exact value.
\<close>

definition rounds_to_nearest :: "(real \<Rightarrow> real) \<Rightarrow> real set \<Rightarrow> bool" where
  "rounds_to_nearest f F = (\<forall>x. f x \<in> F \<and> (\<forall>r \<in> F. \<bar>f x - x\<bar> \<le> \<bar>r - x\<bar>))"

text \<open>
  Binary64 rounding of a real number: to the nearest number with a 53-bit significand,
  a tie going to the even significand (overflow and subnormal numbers, which confidences
  do not reach, are left out).
\<close>

definition fl64 :: "real \<Rightarrow> real" where
  "fl64 x =
     (if x = 0 then 0
      else (let e = \<lfloor>log 2 \<bar>x\<bar>\<rfloor>
            in of_int (round_half_even (x / 2 powi (e - 52))) * 2 powi (e - 52)))"

text \<open>The number a string of decimal digits denotes.\<close>

definition digit_val :: "char \<Rightarrow> nat" where
  "digit_val c = (case map_of (zip ''0123456789'' [0, 1, 2, 3, 4, 5, 6, 7, 8, 9]) c of
                    None \<Rightarrow> 0 | Some d \<Rightarrow> d)"

definition decimal_value :: "string \<Rightarrow> nat" where
  "decimal_value ds = foldl (\<lambda>a c. 10 * a + digit_val c) 0 ds"

text \<open>The two fixed messages of the source.\<close>

definition not_loaded :: exc where
  "not_loaded = RuntimeError ''Models have not been loaded. Call load_models() first.''"

definition generic_500 :: outcome where
  "generic_500 = HTTPException 500 ''Model inference failed. Please try again.''"

subsection \<open>Concrete inputs used to exercise the theorems\<close>

definition img100 :: pil_image where
  "img100 = \<lparr>img_size = (100, 100), img_mode = ''RGB'', img_data = []\<rparr>"

definition person_box :: det_box where
  "person_box = \<lparr>box_cls = 0, box_conf = 99 / 100, box_xyxy = [0, 0, 100, 100]\<rparr>"

definition apple_box :: det_box where
  "apple_box = \<lparr>box_cls = 47, box_conf = 85 / 100, box_xyxy = [10, 20, 50, 60]\<rparr>"

definition banana_box :: det_box where
  "banana_box = \<lparr>box_cls = 46, box_conf = 85 / 100, box_xyxy = [30, 30, 70, 70]\<rparr>"

definition faint_box :: det_box where
  "faint_box = \<lparr>box_cls = 52, box_conf = 5 / 100, box_xyxy = [1, 1, 9, 9]\<rparr>"

definition yolo_of :: "exc + det_box list list \<Rightarrow> yolo_model" where
  "yolo_of out =
     \<lparr>names = [0 \<mapsto> ''person'', 46 \<mapsto> ''banana'', 47 \<mapsto> ''apple'', 52 \<mapsto> ''Hot Dog''],
      forward = (\<lambda>i. out)\<rparr>"

definition bundle_of :: "yolo_model \<Rightarrow> classifier option \<Rightarrow> model_bundle" where
  "bundle_of y clf =
     \<lparr>yolo = y, freshness_classifier = clf, device = ''cpu'',
      food_labels = FOOD_LABELS,
      freshness_labels = [''fresh'', ''semi-fresh'', ''spoiled'']\<rparr>"

text \<open>
  A stand-in for Pillow's \<^verbatim>\<open>Image.crop\<close>: it refuses a rectangle whose right bound is
  less than its left bound, or lower less than upper, and cuts every other one.
\<close>

definition pillow_crop :: "pil_image \<Rightarrow> real \<times> real \<times> real \<times> real \<Rightarrow> exc + crop_image" where
  "pillow_crop img rect =
     (case rect of (l, u, r, b) \<Rightarrow>
        if r < l then Inl (ValueError ''Coordinate right is less than left'')
        else if b < u then Inl (ValueError ''Coordinate lower is less than upper'')
        else Inr \<lparr>crop_source = img, crop_region = (l, u, r, b)\<rparr>)"

text \<open>
  An environment in which every library call used returns; its float arithmetic is
  of unbounded precision (\<open>fl\<close> is the identity).
\<close>

definition ext0 :: ext where
  "ext0 =
     \<lparr>fl = (\<lambda>x. x),
      Image_open = (\<lambda>bs. if bs = [] then Inl (OtherException ''cannot identify image file'')
                         else Inr \<lparr>img_size = (100, 100), img_mode = ''P'', img_data = bs\<rparr>),
      convert = (\<lambda>i m. Inr (i\<lparr>img_mode := m\<rparr>)),
      pil_crop = pillow_crop,
      np_array = (\<lambda>c. Inr \<lparr>shape = [1, 1, 3], flat = [0, 150, 140]\<rparr>),
      cvtColor = (\<lambda>a code. Inr a),
      clahe_apply = (\<lambda>clip tile a. Inr a),
      get_channel = (\<lambda>a k. \<lparr>shape = [1, 1], flat = [flat a ! k]\<rparr>),
      set_channel = (\<lambda>a k c. a),
      np_mean = (\<lambda>a. sum_list (flat a) / real (length (flat a))),
      FRESHNESS_TRANSFORM = (\<lambda>c. Inr \<lparr>shape = [3, 224, 224], flat = []\<rparr>),
      unsqueeze = (\<lambda>t d. t\<lparr>shape := 1 # shape t\<rparr>),
      tensor_to = (\<lambda>t dev. Inr t),
      cuda_is_available = False,
      torch_device = (\<lambda>s. Inr s),
      path_exists = (\<lambda>p. False),
      YOLO = (\<lambda>p. Inr (yolo_of (Inr []))),
      yolo_to = (\<lambda>m d. Inr m),
      torch_load = (\<lambda>p d. Inl (OtherException ''no such file'')),
      load_state_dict = (\<lambda>sd. Inl (OtherException ''missing keys'')),
      module_to = (\<lambda>m d. Inr m),
      module_eval = (\<lambda>m. m)\<rparr>"


definition crop0 :: crop_image where
  "crop0 = \<lparr>crop_source = img100, crop_region = (8, 18, 52, 62)\<rparr>"

definition png_file :: "byte list \<Rightarrow> upload_file" where
  "png_file bs = \<lparr>content_type = Some ''image/png'', file_bytes = bs\<rparr>"

definition rgb1 :: pil_image where
  "rgb1 = \<lparr>img_size = (100, 100), img_mode = ''RGB'', img_data = [1]\<rparr>"

definition ext_bad_device :: ext where
  "ext_bad_device = ext0\<lparr>torch_device := (\<lambda>s. Inl (RuntimeError ''invalid device string''))\<rparr>"

definition ext_no_codec :: ext where
  "ext_no_codec = ext0\<lparr>Image_open := (\<lambda>bs. Inl (OtherException ''cannot identify image file''))\<rparr>"

text \<open>The same environment with binary64 float arithmetic, and a faint apple.\<close>

definition ext64 :: ext where
  "ext64 = ext0\<lparr>fl := fl64\<rparr>"

definition dim_box :: det_box where
  "dim_box = \<lparr>box_cls = 47, box_conf = 7 / 64, box_xyxy = [10, 20, 50, 60]\<rparr>"

definition failing_clf :: classifier where
  "failing_clf = (\<lambda>t. Inl (RuntimeError ''CUDA error''))"

definition crop1 :: crop_image where
  "crop1 = \<lparr>crop_source = rgb1, crop_region = (8, 18, 52, 62)\<rparr>"

definition tensor0 :: ndarray where
  "tensor0 = \<lparr>shape = [1, 3, 224, 224], flat = []\<rparr>"

definition bundle0 :: model_bundle where
  "bundle0 = bundle_of (yolo_of (Inr [])) None"

section \<open>Verified properties\<close>

subsection \<open>Rounding\<close>

lemma rhe_lower: "of_int a \<le> x \<Longrightarrow> a \<le> round_half_even x"
proof -
  assume "of_int a \<le> x"
  then have "a \<le> \<lfloor>x\<rfloor>" by (simp add: le_floor_iff)
  then show ?thesis unfolding round_half_even_def Let_def by auto
qed

lemma rhe_upper: "x \<le> of_int b \<Longrightarrow> round_half_even x \<le> b"
  unfolding round_half_even_def Let_def
  by (auto simp: floor_le_iff)

lemma rhe_near_lo: "x - 1 / 2 \<le> of_int (round_half_even x)"
  unfolding round_half_even_def Let_def by (auto; linarith)

lemma rhe_near_hi: "of_int (round_half_even x) \<le> x + 1 / 2"
  unfolding round_half_even_def Let_def by (auto; linarith)

lemma rhe_of_int: "round_half_even (of_int k) = k"
  unfolding round_half_even_def Let_def by simp

text \<open>
  Two bounds at least 1 apart round to different integers as soon as one of them is an
  integer or the gap is more than 1 (with a gap of exactly 1 between two half-integers,
  such as 1.5 and 2.5, both round to the same even number).
\<close>

lemma rhe_gap:
  assumes "l + 1 \<le> r" and "l = of_int k \<or> r = of_int k \<or> l + 1 < r"
  shows "1 \<le> round_half_even r - round_half_even l"
proof -
  consider (L) "l = of_int k" | (R) "r = of_int k" | (G) "l + 1 < r"
    using assms(2) by blast
  then show ?thesis
  proof cases
    case L
    then have "of_int (k + 1) \<le> r" using assms(1) by simp
    then have "k + 1 \<le> round_half_even r" by (rule rhe_lower)
    then show ?thesis using L by (simp add: rhe_of_int)
  next
    case R
    then have "l \<le> of_int (k - 1)" using assms(1) by simp
    then have "round_half_even l \<le> k - 1" by (rule rhe_upper)
    then show ?thesis using R by (simp add: rhe_of_int)
  next
    case G
    have "real_of_int (round_half_even l) < real_of_int (round_half_even r)"
      using rhe_near_lo [of r] rhe_near_hi [of l] G by linarith
    then show ?thesis by simp
  qed
qed

subsection \<open>Cropping\<close>

lemma clamp_axis:
  fixes x1 x2 d W :: real
  assumes "max 0 x1 + 1 \<le> min W x2" and "0 < d"
  shows "max 0 (x1 - d) + 1 \<le> min W (x2 + d)"
    and "max 0 (x1 - d) = 0 \<or> min W (x2 + d) = W \<or> max 0 (x1 - d) + 1 < min W (x2 + d)"
  using assms unfolding max_def min_def by (auto split: if_splits)

lemma crop_axis:
  fixes x1 x2 :: real and w :: nat
  assumes "max 0 x1 + 1 \<le> min (real w) x2"
  defines "l \<equiv> max 0 (x1 - (x2 - x1) * (5 / 100))"
      and "r \<equiv> min (real w) (x2 + (x2 - x1) * (5 / 100))"
  shows "l + 1 \<le> r" and "1 \<le> round_half_even r - round_half_even l"
proof -
  have "x1 < x2" using assms(1) by (auto simp: max_def min_def split: if_splits)
  then have pad: "0 < (x2 - x1) * (5 / 100)" by simp
  show g: "l + 1 \<le> r"
    unfolding l_def r_def by (rule clamp_axis(1) [OF assms(1) pad])
  have "l = of_int 0 \<or> r = of_int (int w) \<or> l + 1 < r"
    using clamp_axis(2) [OF assms(1) pad] unfolding l_def r_def by simp
  then consider "l = of_int 0" | "r = of_int (int w)" | "l + 1 < r" by blast
  then show "1 \<le> round_half_even r - round_half_even l"
    by cases (use g rhe_gap in blast)+
qed

lemma ext0_fl: "fl ext0 x = x"
  by (simp add: ext0_def)

lemma ext0_crop: "pil_crop ext0 img rect = pillow_crop img rect"
  by (simp add: ext0_def)

text \<open>
  C1, as the code has it.  For every image and every four-element box, \<open>crop_bbox\<close> with
  padding 0.05 hands the image library the rectangle \<open>(l, u, r, b)\<close> obtained by padding
  the box and clamping the left and upper bounds from below at 0 and the right and lower
  bounds from above at the image width and height, and it returns or raises what the
  library's crop does for that rectangle; \<open>0 \<le> l\<close>, \<open>0 \<le> u\<close>, \<open>r \<le> width\<close> and
  \<open>b \<le> height\<close> always hold.  When the part of the input box that lies inside the image is
  at least 1 wide and 1 high, the rectangle lies within the image and is at least 1 wide
  and 1 high, also after each bound is rounded to a whole pixel.
\<close>

theorem crop_bbox_bounds:
  fixes L :: ext and img :: pil_image and x1 y1 x2 y2 :: real
  defines "l \<equiv> max 0 (x1 - (x2 - x1) * (5 / 100))"
      and "u \<equiv> max 0 (y1 - (y2 - y1) * (5 / 100))"
      and "r \<equiv> min (real (fst (img_size img))) (x2 + (x2 - x1) * (5 / 100))"
      and "b \<equiv> min (real (snd (img_size img))) (y2 + (y2 - y1) * (5 / 100))"
  shows "crop_bbox L img [x1, y1, x2, y2] (5 / 100) = pil_crop L img (l, u, r, b)
         \<and> 0 \<le> l \<and> 0 \<le> u \<and> r \<le> real (fst (img_size img)) \<and> b \<le> real (snd (img_size img))
         \<and> (max 0 x1 + 1 \<le> min (real (fst (img_size img))) x2
            \<and> max 0 y1 + 1 \<le> min (real (snd (img_size img))) y2
            \<longrightarrow> 1 \<le> region_width (l, u, r, b) \<and> 1 \<le> region_height (l, u, r, b)
                \<and> 1 \<le> pixel_width (l, u, r, b) \<and> 1 \<le> pixel_height (l, u, r, b))"
proof -
  have eq: "crop_bbox L img [x1, y1, x2, y2] (5 / 100) = pil_crop L img (l, u, r, b)"
    unfolding crop_bbox_def l_def u_def r_def b_def
    by (cases "img_size img") (simp add: Let_def)
  have bnd: "0 \<le> l" "0 \<le> u" "r \<le> real (fst (img_size img))" "b \<le> real (snd (img_size img))"
    unfolding l_def u_def r_def b_def by simp_all
  have vis: "1 \<le> region_width (l, u, r, b) \<and> 1 \<le> region_height (l, u, r, b)
       \<and> 1 \<le> pixel_width (l, u, r, b) \<and> 1 \<le> pixel_height (l, u, r, b)"
    if "max 0 x1 + 1 \<le> min (real (fst (img_size img))) x2"
       "max 0 y1 + 1 \<le> min (real (snd (img_size img))) y2"
  proof -
    have x: "l + 1 \<le> r" "1 \<le> round_half_even r - round_half_even l"
      using crop_axis [OF that(1)] unfolding l_def r_def by blast+
    have y: "u + 1 \<le> b" "1 \<le> round_half_even b - round_half_even u"
      using crop_axis [OF that(2)] unfolding u_def b_def by blast+
    from x(1) y(1) have "1 \<le> r - l" "1 \<le> b - u" by linarith+
    with x(2) y(2) show ?thesis by simp
  qed
  show ?thesis using eq bnd vis by blast
qed

theorem crop_bbox_bounds_witness:
  "max 0 10 + 1 \<le> min (real (fst (img_size img100))) 50
   \<and> max 0 20 + 1 \<le> min (real (snd (img_size img100))) 60
   \<and> crop_bbox ext0 img100 [10, 20, 50, 60] (5 / 100)
       = Inr \<lparr>crop_source = img100, crop_region = (8, 18, 52, 62)\<rparr>
   \<and> 1 \<le> pixel_width (8, 18, 52, 62) \<and> 1 \<le> pixel_height (8, 18, 52, 62)"
  using crop_bbox_bounds [of ext0 img100 10 20 50 60]
  by (simp add: img100_def ext0_crop pillow_crop_def)

text \<open>
  C1 as stated fails: a zero-area box inside the image gives a zero-area crop (nothing
  enforces a minimal size, and the library cuts a rectangle that is not inverted), here
  0 wide and 0 high on a 100 by 100 image.
\<close>

theorem crop_bbox_degenerate_counterexample:
  "crop_bbox ext0 img100 [5, 5, 5, 5] (5 / 100)
     = Inr \<lparr>crop_source = img100, crop_region = (5, 5, 5, 5)\<rparr>
   \<and> region_width (5, 5, 5, 5) = 0 \<and> region_height (5, 5, 5, 5) = 0
   \<and> pixel_width (5, 5, 5, 5) = 0 \<and> pixel_height (5, 5, 5, 5) = 0"
  by (simp add: crop_bbox_def img100_def ext0_crop pillow_crop_def)

text \<open>
  A box lying to the right of the image gives the rectangle (195, 9.5, 100, 20.5), whose
  left bound is beyond its right bound: the library raises, and so does \<open>crop_bbox\<close>.
\<close>

lemma crop_bbox_outside:
  "crop_bbox ext0 img100 [200, 10, 300, 20] (5 / 100)
     = Inl (ValueError ''Coordinate right is less than left'')"
  by (simp add: crop_bbox_def img100_def ext0_crop pillow_crop_def)

subsection \<open>Rounded values stay in range\<close>

lemma py_round_range:
  assumes "of_int a / 10 ^ n \<le> x" and "x \<le> of_int b / 10 ^ n"
  shows "of_int a / 10 ^ n \<le> py_round x n \<and> py_round x n \<le> of_int b / 10 ^ n"
proof -
  have p: "(0::real) < 10 ^ n" by simp
  have "of_int a \<le> x * 10 ^ n" using assms(1) p by (simp add: divide_le_eq)
  then have lo: "a \<le> round_half_even (x * 10 ^ n)" by (rule rhe_lower)
  have "x * 10 ^ n \<le> of_int b" using assms(2) p by (simp add: le_divide_eq)
  then have hi: "round_half_even (x * 10 ^ n) \<le> b" by (rule rhe_upper)
  have "real_of_int a \<le> real_of_int (round_half_even (x * 10 ^ n))"
       "real_of_int (round_half_even (x * 10 ^ n)) \<le> real_of_int b"
    using lo hi by simp_all
  then show ?thesis using p unfolding py_round_def by (simp add: divide_right_mono)
qed

lemma py_round_unit2: "0 \<le> x \<Longrightarrow> x \<le> 1 \<Longrightarrow> 0 \<le> py_round x 4 \<and> py_round x 4 \<le> 1"
  using py_round_range [of 0 4 x 10000] by simp


subsection \<open>Rounding to nearest\<close>

lemma nearest_le:
  assumes "rounds_to_nearest f F" and "r \<in> F" and "x \<le> r"
  shows "f x \<le> r"
proof (rule ccontr)
  assume "\<not> f x \<le> r"
  then have far: "r - x < f x - x" by simp
  have "\<bar>f x - x\<bar> \<le> \<bar>r - x\<bar>"
    using assms(1,2) unfolding rounds_to_nearest_def by blast
  with far assms(3) show False by linarith
qed

lemma nearest_ge:
  assumes "rounds_to_nearest f F" and "r \<in> F" and "r \<le> x"
  shows "r \<le> f x"
proof (rule ccontr)
  assume "\<not> r \<le> f x"
  then have far: "x - r < x - f x" by simp
  have "\<bar>f x - x\<bar> \<le> \<bar>r - x\<bar>"
    using assms(1,2) unfolding rounds_to_nearest_def by blast
  with far assms(3) show False by linarith
qed

lemma nearest_in: "rounds_to_nearest f F \<Longrightarrow> f x \<in> F"
  unfolding rounds_to_nearest_def by blast

text \<open>
  The binary64 numbers nearest 0.4 and 0.6 (each within half a unit in the last place)
  add up to exactly 1; this is what keeps the blend of two confidences of 1 at 1.
\<close>

lemma binary64_literals:
  "\<bar>3602879701896397 / 2 ^ 53 - 4 / 10\<bar> \<le> (1 / 2 ^ 55 :: real)"
  "\<bar>5404319552844595 / 2 ^ 53 - 6 / 10\<bar> \<le> (1 / 2 ^ 54 :: real)"
  "3602879701896397 / 2 ^ 53 + 5404319552844595 / 2 ^ 53 = (1 :: real)"
  by simp_all

text \<open>The blend of two floats in [0, 1] stays in [0, 1].\<close>

lemma blend_unit:
  assumes n: "rounds_to_nearest f F" and z: "0 \<in> F" and o: "1 \<in> F"
      and lit: "f (4 / 10) + f (6 / 10) \<le> 1"
      and a: "0 \<le> a" "a \<le> 1" and b: "0 \<le> b" "b \<le> 1"
  shows "0 \<le> f (py_round (f (f (a * f (4 / 10)) + f (b * f (6 / 10)))) 4)
         \<and> f (py_round (f (f (a * f (4 / 10)) + f (b * f (6 / 10)))) 4) \<le> 1"
proof -
  have c4: "0 \<le> f (4 / 10)" and c6: "0 \<le> f (6 / 10)"
    using nearest_ge [OF n z] by simp_all
  have "a * f (4 / 10) \<le> f (4 / 10)" using a c4 by (simp add: mult_left_le_one_le)
  then have t1: "0 \<le> f (a * f (4 / 10))" "f (a * f (4 / 10)) \<le> f (4 / 10)"
    using nearest_ge [OF n z, of "a * f (4 / 10)"] nearest_le [OF n nearest_in [OF n]] a c4
    by simp_all
  have "b * f (6 / 10) \<le> f (6 / 10)" using b c6 by (simp add: mult_left_le_one_le)
  then have t2: "0 \<le> f (b * f (6 / 10))" "f (b * f (6 / 10)) \<le> f (6 / 10)"
    using nearest_ge [OF n z, of "b * f (6 / 10)"] nearest_le [OF n nearest_in [OF n]] b c6
    by simp_all
  have sum: "0 \<le> f (a * f (4 / 10)) + f (b * f (6 / 10))"
            "f (a * f (4 / 10)) + f (b * f (6 / 10)) \<le> 1"
    using t1 t2 lit by linarith+
  have s: "0 \<le> f (f (a * f (4 / 10)) + f (b * f (6 / 10)))"
          "f (f (a * f (4 / 10)) + f (b * f (6 / 10))) \<le> 1"
    using nearest_ge [OF n z sum(1)] nearest_le [OF n o sum(2)] by simp_all
  have p: "0 \<le> py_round (f (f (a * f (4 / 10)) + f (b * f (6 / 10)))) 4"
          "py_round (f (f (a * f (4 / 10)) + f (b * f (6 / 10)))) 4 \<le> 1"
    using py_round_unit2 [OF s] by simp_all
  show ?thesis using nearest_ge [OF n z p(1)] nearest_le [OF n o p(2)] by simp
qed

text \<open>So does the blend of two confidences in [0, 1] that are first read as floats.\<close>

lemma blend_unit_inputs:
  assumes n: "rounds_to_nearest f F" and z: "0 \<in> F" and o: "1 \<in> F"
      and lit: "f (4 / 10) + f (6 / 10) \<le> 1"
      and a: "0 \<le> a" "a \<le> 1" and b: "0 \<le> b" "b \<le> 1"
  shows "0 \<le> f (py_round (f (f (f a * f (4 / 10)) + f (f b * f (6 / 10)))) 4)
         \<and> f (py_round (f (f (f a * f (4 / 10)) + f (f b * f (6 / 10)))) 4) \<le> 1"
proof (rule blend_unit [OF n z o lit])
  show "0 \<le> f a" using nearest_ge [OF n z a(1)] .
  show "f a \<le> 1" using nearest_le [OF n o a(2)] .
  show "0 \<le> f b" using nearest_ge [OF n z b(1)] .
  show "f b \<le> 1" using nearest_le [OF n o b(2)] .
qed

subsection \<open>Evaluating the concrete inputs\<close>

lemma lower_labels: "map str_lower FOOD_LABELS = FOOD_LABELS"
  unfolding FOOD_LABELS_def by (simp add: str_lower_def char_lower_def)

lemma lower_names:
  "str_lower ''person'' = ''person''" "str_lower ''banana'' = ''banana''"
  "str_lower ''apple'' = ''apple''" "str_lower ''Hot Dog'' = ''hot dog''"
  "str_lower ''food'' = ''food''"
  by (simp_all add: str_lower_def char_lower_def)

lemma replace_names:
  "replace_space ''apple'' = ''apple''" "replace_space ''hot dog'' = ''hot_dog''"
  by (simp_all add: replace_space_def)

lemma heuristic0:
  "heuristic_freshness ext0 c (1 / 10) = Inr (''fresh'', 85 / 100)"
  by (simp add: heuristic_freshness_def pil_to_cv2_def enhance_contrast_def ext0_def
      py_round_def round_half_even_def Let_def)

lemma is_food0:
  "is_food (bundle_of (yolo_of out) clf) person_box = False"
  "is_food (bundle_of (yolo_of out) clf) apple_box = True"
  "is_food (bundle_of (yolo_of out) clf) banana_box = True"
  "is_food (bundle_of (yolo_of out) clf) faint_box = True"
  by (simp_all add: is_food_def bundle_of_def yolo_of_def box_name_def person_box_def
      apple_box_def banana_box_def faint_box_def COCO_FOOD_CLASSES_def lower_labels lower_names)
    (simp add: FOOD_LABELS_def)

lemma png_supported: "content_type (png_file bs) \<in> Some ` SUPPORTED_CONTENT_TYPES"
  by (simp add: png_file_def SUPPORTED_CONTENT_TYPES_def)

lemma decode1: "bytes_to_pil ext0 (file_bytes (png_file [1])) = Inr rgb1"
  by (simp add: bytes_to_pil_def ext0_def rgb1_def png_file_def)

lemma small1: "length (file_bytes (png_file [1])) \<le> MAX_FILE_SIZE_BYTES"
  by (simp add: png_file_def MAX_FILE_SIZE_BYTES_def)

lemma kb: "str_nat 10240 = ''10240''"
  by (simp add: str_nat.simps digit_char_def)

subsection \<open>The detection loop\<close>

lemma COCO_range: "c \<in> COCO_FOOD_CLASSES \<longleftrightarrow> 46 \<le> c \<and> c \<le> 61"
  unfolding COCO_FOOD_CLASSES_def by (simp; presburger)

lemma is_food_spec: "is_food bundle box = spec_is_food bundle box"
  unfolding is_food_def spec_is_food_def by (auto simp: COCO_range)

lemma spec_select_Nil: "spec_select [] = None"
  by (simp add: spec_select_def)

lemma spec_select_Cons:
  "spec_select (c # cs) =
     (if \<forall>b' \<in> set cs. box_conf b' \<le> box_conf c then Some c else spec_select cs)"
proof (cases "\<forall>b' \<in> set cs. box_conf b' \<le> box_conf c")
  case True
  then show ?thesis by (simp add: spec_select_def)
next
  case False
  then obtain d where d: "d \<in> set cs" "box_conf c < box_conf d" by force
  have "find (\<lambda>b. \<forall>b' \<in> set (c # cs). box_conf b' \<le> box_conf b) cs
        = find (\<lambda>b. \<forall>b' \<in> set cs. box_conf b' \<le> box_conf b) cs"
  proof (rule find_cong [OF refl])
    fix x assume "x \<in> set cs"
    show "(\<forall>b' \<in> set (c # cs). box_conf b' \<le> box_conf x)
          = (\<forall>b' \<in> set cs. box_conf b' \<le> box_conf x)"
      using d by force
  qed
  then show ?thesis using False by (auto simp: spec_select_def)
qed

lemma spec_select_Some:
  "spec_select cs = Some b \<Longrightarrow> b \<in> set cs \<and> (\<forall>b' \<in> set cs. box_conf b' \<le> box_conf b)"
  unfolding spec_select_def by (auto simp: find_Some_iff)

lemma spec_select_None: "spec_select cs = None \<longleftrightarrow> cs = []"
proof (induction cs)
  case Nil
  show ?case by (simp add: spec_select_Nil)
next
  case (Cons c cs)
  show ?case
  proof (cases "\<forall>b' \<in> set cs. box_conf b' \<le> box_conf c")
    case True
    then show ?thesis by (simp add: spec_select_Cons)
  next
    case False
    then have "cs \<noteq> []" by auto
    with False Cons show ?thesis by (simp add: spec_select_Cons)
  qed
qed

lemma detect_loop_spec:
  "detect_loop bundle boxes (bb, bc, bl) =
     (case spec_select (filter (is_food bundle) boxes) of
        None \<Rightarrow> (bb, bc, bl)
      | Some w \<Rightarrow> if bc < box_conf w then best_of bundle w else (bb, bc, bl))"
proof (induction boxes arbitrary: bb bc bl)
  case Nil
  show ?case by (simp add: spec_select_Nil)
next
  case (Cons box boxes)
  let ?cs = "filter (is_food bundle) boxes"
  show ?case
  proof (cases "is_food bundle box")
    case False
    then show ?thesis using Cons.IH by simp
  next
    case food: True
    show ?thesis
    proof (cases "\<forall>b' \<in> set ?cs. box_conf b' \<le> box_conf box")
      case top: True
      have sel: "spec_select (filter (is_food bundle) (box # boxes)) = Some box"
        using food top by (simp add: spec_select_Cons)
      have rest: "\<And>w. spec_select ?cs = Some w \<Longrightarrow> box_conf w \<le> box_conf box"
        using top spec_select_Some by blast
      show ?thesis
      proof (cases "bc < box_conf box")
        case True
        then show ?thesis
          using food sel rest Cons.IH [of "Some (box_xyxy box)" "box_conf box"]
          by (auto simp: best_of_def split: option.splits)
      next
        case False
        then show ?thesis
          using food sel rest Cons.IH [of bb bc bl]
          by (fastforce split: option.splits)
      qed
    next
      case nottop: False
      then obtain d where d: "d \<in> set ?cs" "box_conf box < box_conf d" by force
      have sel: "spec_select (filter (is_food bundle) (box # boxes)) = spec_select ?cs"
        using food nottop by (auto simp: spec_select_Cons)
      have "?cs \<noteq> []" using d(1) by (metis empty_iff list.set(1))
      then have "spec_select ?cs \<noteq> None" by (simp add: spec_select_None)
      then obtain w where w: "spec_select ?cs = Some w" by blast
      have ge: "box_conf d \<le> box_conf w" using spec_select_Some [OF w] d(1) by blast
      show ?thesis
      proof (cases "bc < box_conf box")
        case True
        then show ?thesis
          using food sel w ge d(2) Cons.IH [of "Some (box_xyxy box)" "box_conf box"]
          by (auto simp: best_of_def)
      next
        case False
        then show ?thesis
          using food sel w Cons.IH [of bb bc bl] by simp
      qed
    qed
  qed
qed

lemma loop_result:
  "(case results of
      [] \<Rightarrow> (None, 0, ''unknown'')
    | r0 # _ \<Rightarrow> (if length r0 > 0 then detect_loop bundle r0 (None, 0, ''unknown'')
                 else (None, 0, ''unknown'')))
   = detect_loop bundle (first_boxes results) (None, 0, ''unknown'')"
  by (cases results) (auto simp: first_boxes_def)

lemma run_inference_loop:
  assumes "forward (yolo bundle) img = Inr results"
  shows "run_inference L img bundle u =
     (case spec_select (filter (is_food bundle) (first_boxes results)) of
        None \<Rightarrow> Inr not_detected
      | Some w \<Rightarrow>
          if box_conf w < 10 / 100 then Inr not_detected else spec_stage2 L img bundle u w)"
proof -
  let ?sel = "spec_select (filter (is_food bundle) (first_boxes results))"
  have run: "run_inference L img bundle u =
     (case detect_loop bundle (first_boxes results) (None, 0, ''unknown'') of
        (best_box, best_conf, best_label) \<Rightarrow>
          (case best_box of
             None \<Rightarrow> Inr not_detected
           | Some bb \<Rightarrow>
               (if best_conf < 10 / 100 then Inr not_detected
                else
                  (case crop_bbox L img bb (5 / 100) of
                     Inl e \<Rightarrow> Inl e
                   | Inr crop \<Rightarrow>
                       (case classify_freshness L bundle crop u of
                          Inl e \<Rightarrow> Inl e
                        | Inr (freshness_label, freshness_conf) \<Rightarrow>
                            Inr \<lparr>food = best_label,
                                 freshness = freshness_label,
                                 confidence =
                                   fl L (py_round
                                     (fl L (fl L (fl L best_conf * fl L (4 / 10))
                                            + fl L (fl L freshness_conf * fl L (6 / 10)))) 4),
                                 detected = True,
                                 bbox = Some bb\<rparr>)))))"
    unfolding run_inference_def loop_result Let_def using assms by simp
  show ?thesis
  proof (cases ?sel)
    case None
    then show ?thesis unfolding run by (simp add: detect_loop_spec)
  next
    case (Some w)
    show ?thesis
    proof (cases "0 < box_conf w")
      case True
      then show ?thesis unfolding run
        by (simp add: detect_loop_spec Some best_of_def spec_stage2_def)
    next
      case False
      then show ?thesis unfolding run by (simp add: detect_loop_spec Some)
    qed
  qed
qed

text \<open>
  C2.  Whenever the detector returns and every candidate that passes the food filter has
  confidence below 0.10 (in particular when none passes, or the detector returns nothing),
  \<open>run_inference\<close> returns food \<open>unknown\<close>, freshness \<open>unknown\<close>, confidence 0,
  detected false and no bounding box.
\<close>

theorem run_inference_not_detected:
  assumes "forward (yolo bundle) img = Inr results"
      and "\<forall>b \<in> set (filter (is_food bundle) (first_boxes results)). box_conf b < 10 / 100"
  shows "run_inference L img bundle u
           = Inr \<lparr>food = ''unknown'', freshness = ''unknown'', confidence = 0,
                  detected = False, bbox = None\<rparr>"
proof (cases "spec_select (filter (is_food bundle) (first_boxes results))")
  case None
  then show ?thesis
    by (simp add: run_inference_loop [OF assms(1)] not_detected_def)
next
  case (Some w)
  then have "box_conf w < 10 / 100" using assms(2) spec_select_Some by blast
  with Some show ?thesis
    by (simp add: run_inference_loop [OF assms(1)] not_detected_def)
qed

theorem run_inference_not_detected_witness:
  "run_inference ext0 img100 (bundle_of (yolo_of (Inr [[person_box, faint_box]])) None) (1 / 10)
     = Inr \<lparr>food = ''unknown'', freshness = ''unknown'', confidence = 0,
            detected = False, bbox = None\<rparr>"
proof (rule run_inference_not_detected)
  show "forward (yolo (bundle_of (yolo_of (Inr [[person_box, faint_box]])) None)) img100
          = Inr [[person_box, faint_box]]"
    by (simp add: bundle_of_def yolo_of_def)
  show "\<forall>b \<in> set (filter (is_food (bundle_of (yolo_of (Inr [[person_box, faint_box]])) None))
                     (first_boxes [[person_box, faint_box]])). box_conf b < 10 / 100"
    by (simp add: first_boxes_def is_food0) (simp add: faint_box_def)
qed

text \<open>
  C5.  For every detector output, \<open>run_inference\<close> behaves as the specification's
  pipeline: it keeps the candidates of the food filter, selects among them the first one
  of highest confidence, and reports "not detected" when there is none or its confidence
  is below 0.10; otherwise the result is built from that candidate.
\<close>

theorem run_inference_selection:
  assumes "forward (yolo bundle) img = Inr results"
  shows "run_inference L img bundle u =
     (case spec_select (filter (spec_is_food bundle) (first_boxes results)) of
        None \<Rightarrow> Inr not_detected
      | Some w \<Rightarrow>
          if box_conf w < 10 / 100 then Inr not_detected else spec_stage2 L img bundle u w)"
proof -
  have "filter (spec_is_food bundle) (first_boxes results)
        = filter (is_food bundle) (first_boxes results)"
    by (rule filter_cong) (simp_all add: is_food_spec)
  then show ?thesis using run_inference_loop [OF assms] by simp
qed

theorem run_inference_selection_witness:
  "forward (yolo (bundle_of (yolo_of (Inr [[person_box, apple_box, banana_box]])) None)) img100
      = Inr [[person_box, apple_box, banana_box]]
   \<and> spec_select (filter (spec_is_food (bundle_of (yolo_of (Inr [[person_box, apple_box, banana_box]])) None))
         (first_boxes [[person_box, apple_box, banana_box]])) = Some apple_box
   \<and> run_inference ext0 img100
       (bundle_of (yolo_of (Inr [[person_box, apple_box, banana_box]])) None) (1 / 10)
     = Inr \<lparr>food = ''apple'', freshness = ''fresh'', confidence = 85 / 100,
            detected = True, bbox = Some [10, 20, 50, 60]\<rparr>"
proof -
  let ?b = "bundle_of (yolo_of (Inr [[person_box, apple_box, banana_box]])) None"
  have f: "forward (yolo ?b) img100 = Inr [[person_box, apple_box, banana_box]]"
    by (simp add: bundle_of_def yolo_of_def)
  have flt: "filter (spec_is_food ?b) (first_boxes [[person_box, apple_box, banana_box]])
             = [apple_box, banana_box]"
    by (simp add: first_boxes_def is_food_spec [symmetric] is_food0)
  have sel: "spec_select [apple_box, banana_box] = Some apple_box"
    by (simp add: spec_select_def apple_box_def banana_box_def)
  have crop: "crop_bbox ext0 img100 (box_xyxy apple_box) (5 / 100)
              = Inr \<lparr>crop_source = img100, crop_region = (8, 18, 52, 62)\<rparr>"
    by (simp add: crop_bbox_def img100_def apple_box_def ext0_crop pillow_crop_def)
  have cls: "classify_freshness ext0 ?b c (1 / 10) = Inr (''fresh'', 85 / 100)" for c
    by (simp add: classify_freshness_def bundle_of_def heuristic0)
  have nm: "replace_space (str_lower (box_name ?b apple_box)) = ''apple''"
    by (simp add: box_name_def bundle_of_def yolo_of_def apple_box_def lower_names replace_names)
  have st: "spec_stage2 ext0 img100 ?b (1 / 10) apple_box
            = Inr \<lparr>food = ''apple'', freshness = ''fresh'', confidence = 85 / 100,
                   detected = True, bbox = Some [10, 20, 50, 60]\<rparr>"
    unfolding spec_stage2_def crop
    by (simp add: cls nm ext0_fl) (simp add: apple_box_def py_round_def round_half_even_def)
  show ?thesis
    using run_inference_selection [OF f, of ext0 "1 / 10"] f flt sel st
    by (simp add: apple_box_def)
qed

subsection \<open>Freshness estimation and blending\<close>



text \<open>
  C4.  In a successful two-stage run (the selected candidate has confidence at least 0.10,
  cropping and freshness estimation return), the returned confidence is
  \<open>round(detection * 0.4 + freshness * 0.6, 4)\<close>, computed in float arithmetic on the
  two confidences read as floats.  When
  the float arithmetic rounds to nearest, 0 and 1 are floats and the floats nearest 0.4
  and 0.6 add up to at most 1 (all true of binary64), and both stage confidences lie in
  [0, 1], the blended confidence lies in [0, 1].
\<close>

theorem run_inference_blend:
  assumes "forward (yolo bundle) img = Inr results"
      and "spec_select (filter (is_food bundle) (first_boxes results)) = Some w"
      and "10 / 100 \<le> box_conf w"
      and "crop_bbox L img (box_xyxy w) (5 / 100) = Inr crop"
      and "classify_freshness L bundle crop u = Inr (label, fresh_conf)"
  shows "run_inference L img bundle u
           = Inr \<lparr>food = replace_space (str_lower (box_name bundle w)),
                  freshness = label,
                  confidence =
                    fl L (py_round
                      (fl L (fl L (fl L (box_conf w) * fl L (4 / 10))
                             + fl L (fl L fresh_conf * fl L (6 / 10)))) 4),
                  detected = True,
                  bbox = Some (box_xyxy w)\<rparr>
         \<and> (rounds_to_nearest (fl L) F \<and> 0 \<in> F \<and> 1 \<in> F
              \<and> fl L (4 / 10) + fl L (6 / 10) \<le> 1
              \<and> 0 \<le> box_conf w \<and> box_conf w \<le> 1 \<and> 0 \<le> fresh_conf \<and> fresh_conf \<le> 1
              \<longrightarrow> 0 \<le> fl L (py_round
                        (fl L (fl L (fl L (box_conf w) * fl L (4 / 10))
                               + fl L (fl L fresh_conf * fl L (6 / 10)))) 4)
                  \<and> fl L (py_round
                        (fl L (fl L (fl L (box_conf w) * fl L (4 / 10))
                               + fl L (fl L fresh_conf * fl L (6 / 10)))) 4) \<le> 1)"
proof -
  have run: "run_inference L img bundle u
           = Inr \<lparr>food = replace_space (str_lower (box_name bundle w)),
                  freshness = label,
                  confidence =
                    fl L (py_round
                      (fl L (fl L (fl L (box_conf w) * fl L (4 / 10))
                             + fl L (fl L fresh_conf * fl L (6 / 10)))) 4),
                  detected = True,
                  bbox = Some (box_xyxy w)\<rparr>"
    using assms(2-5) by (simp add: run_inference_loop [OF assms(1)] spec_stage2_def)
  have rng: "0 \<le> fl L (py_round
                        (fl L (fl L (fl L (box_conf w) * fl L (4 / 10))
                               + fl L (fl L fresh_conf * fl L (6 / 10)))) 4)
           \<and> fl L (py_round
                        (fl L (fl L (fl L (box_conf w) * fl L (4 / 10))
                               + fl L (fl L fresh_conf * fl L (6 / 10)))) 4) \<le> 1"
    if "rounds_to_nearest (fl L) F" "0 \<in> F" "1 \<in> F" "fl L (4 / 10) + fl L (6 / 10) \<le> 1"
       "0 \<le> box_conf w" "box_conf w \<le> 1" "0 \<le> fresh_conf" "fresh_conf \<le> 1"
    using that by (rule blend_unit_inputs)
  show ?thesis using run rng by blast
qed

theorem run_inference_blend_witness:
  "forward (yolo (bundle_of (yolo_of (Inr [[person_box, apple_box, banana_box]])) None)) img100
      = Inr [[person_box, apple_box, banana_box]]
   \<and> spec_select (filter (is_food (bundle_of (yolo_of (Inr [[person_box, apple_box, banana_box]])) None))
         (first_boxes [[person_box, apple_box, banana_box]])) = Some apple_box
   \<and> (10::real) / 100 \<le> box_conf apple_box
   \<and> crop_bbox ext0 img100 (box_xyxy apple_box) (5 / 100) = Inr crop0
   \<and> classify_freshness ext0 (bundle_of (yolo_of (Inr [[person_box, apple_box, banana_box]])) None)
        crop0 (1 / 10) = Inr (''fresh'', 85 / 100)
   \<and> rounds_to_nearest (fl ext0) UNIV
   \<and> fl ext0 (4 / 10) + fl ext0 (6 / 10) \<le> 1
   \<and> confidence (projr (run_inference ext0 img100
        (bundle_of (yolo_of (Inr [[person_box, apple_box, banana_box]])) None) (1 / 10)))
      = 85 / 100"
proof -
  let ?b = "bundle_of (yolo_of (Inr [[person_box, apple_box, banana_box]])) None"
  have f: "forward (yolo ?b) img100 = Inr [[person_box, apple_box, banana_box]]"
    by (simp add: bundle_of_def yolo_of_def)
  have flt: "filter (is_food ?b) (first_boxes [[person_box, apple_box, banana_box]])
             = [apple_box, banana_box]"
    by (simp add: first_boxes_def is_food0)
  have sel: "spec_select (filter (is_food ?b) (first_boxes [[person_box, apple_box, banana_box]]))
             = Some apple_box"
    unfolding flt by (simp add: spec_select_def apple_box_def banana_box_def)
  have c10: "(10::real) / 100 \<le> box_conf apple_box" by (simp add: apple_box_def)
  have crop: "crop_bbox ext0 img100 (box_xyxy apple_box) (5 / 100) = Inr crop0"
    by (simp add: crop_bbox_def img100_def apple_box_def crop0_def ext0_crop pillow_crop_def)
  have cls: "classify_freshness ext0 ?b crop0 (1 / 10) = Inr (''fresh'', 85 / 100)"
    by (simp add: classify_freshness_def bundle_of_def heuristic0)
  have bc: "box_conf apple_box = 85 / 100" by (simp add: apple_box_def)
  have near: "rounds_to_nearest (fl ext0) UNIV"
    by (simp add: rounds_to_nearest_def ext0_fl)
  have lit: "fl ext0 (4 / 10) + fl ext0 (6 / 10) \<le> 1"
    by (simp add: ext0_fl)
  have val: "py_round (17 / 20) 4 = 17 / 20"
    by (simp add: py_round_def round_half_even_def)
  show ?thesis
    using run_inference_blend [OF f sel c10 crop cls, of UNIV] f sel c10 crop cls near lit
    by (simp add: bc ext0_fl val)
qed

subsection \<open>The blend under binary64 rounding\<close>

lemma fl64_eval:
  assumes "2 powi e \<le> \<bar>x\<bar>" and "\<bar>x\<bar> < 2 powi (e + 1)"
  shows "fl64 x = of_int (round_half_even (x / 2 powi (e - 52))) * 2 powi (e - 52)"
proof -
  have "(0::real) < 2 powi e" by simp
  then have pos: "0 < \<bar>x\<bar>" using assms(1) by linarith
  have eq: "(2::real) powr real_of_int k = 2 powi k" for k
    by (simp add: powr_real_of_int')
  have lo: "2 powr (real_of_int e) \<le> \<bar>x\<bar>"
    using assms(1) by (simp add: eq)
  have hi: "\<bar>x\<bar> < 2 powr (real_of_int (e + 1))"
    using assms(2) eq [of "e + 1"] by simp
  have "\<lfloor>log 2 \<bar>x\<bar>\<rfloor> = e"
    using pos lo hi floor_log_eq_powr_iff [of "\<bar>x\<bar>" 2 e] by simp
  then show ?thesis using pos by (simp add: fl64_def Let_def)
qed

lemma fl64_literals:
  "fl64 (4 / 10) = 3602879701896397 / 2 ^ 53"
  "fl64 (6 / 10) = 5404319552844595 / 2 ^ 53"
  by (subst fl64_eval [where e = "-2"], simp_all add: round_half_even_def power_int_minus)
     (subst fl64_eval [where e = "-1"], simp_all add: round_half_even_def power_int_minus)

lemma fl64_inputs:
  "fl64 (7 / 64) = 7 / 64"
  "fl64 (85 / 100) = 7656119366529843 / 2 ^ 53"
  by (subst fl64_eval [where e = "-4"], simp_all add: round_half_even_def power_int_minus)
     (subst fl64_eval [where e = "-1"], simp_all add: round_half_even_def power_int_minus)

lemma fl64_products:
  "fl64 (7 / 64 * (3602879701896397 / 2 ^ 53)) = 6305039478318695 / 2 ^ 57"
  "fl64 (7656119366529843 / 2 ^ 53 * (5404319552844595 / 2 ^ 53)) = 2296835809958953 / 2 ^ 52"
  by (subst fl64_eval [where e = "-5"], simp_all add: round_half_even_def power_int_minus)
     (subst fl64_eval [where e = "-1"], simp_all add: round_half_even_def power_int_minus)

lemma fl64_sum:
  "fl64 (6305039478318695 / 2 ^ 57 + 2296835809958953 / 2 ^ 52) = 623467073414103 / 2 ^ 50"
  by (subst fl64_eval [where e = "-1"]) (simp_all add: round_half_even_def power_int_minus)

lemma round_sum: "py_round (623467073414103 / 2 ^ 50) 4 = 5537 / 10000"
  by (simp add: py_round_def round_half_even_def)

text \<open>
  For a detection confidence of 7/64 and a freshness confidence of 0.85 the binary64
  blend is the float nearest 0.5537; arithmetic of unbounded precision would meet a tie
  and give 0.5538.
\<close>

lemma blend_binary64:
  "fl64 (py_round (fl64 (fl64 (fl64 (7 / 64) * fl64 (4 / 10))
                         + fl64 (fl64 (85 / 100) * fl64 (6 / 10)))) 4)
   = fl64 (5537 / 10000)"
  by (simp only: fl64_literals fl64_inputs fl64_products fl64_sum round_sum)

lemma blend_exact_differs:
  "py_round (7 / 64 * (4 / 10) + 85 / 100 * (6 / 10)) 4 = 5538 / 10000"
  by (simp add: py_round_def round_half_even_def)

lemma run_inference_binary64_example:
  "run_inference ext64 img100 (bundle_of (yolo_of (Inr [[dim_box]])) None) (1 / 10)
     = Inr \<lparr>food = ''apple'', freshness = ''fresh'', confidence = fl64 (5537 / 10000),
            detected = True, bbox = Some [10, 20, 50, 60]\<rparr>"
proof -
  let ?b = "bundle_of (yolo_of (Inr [[dim_box]])) None"
  have f: "forward (yolo ?b) img100 = Inr [[dim_box]]"
    by (simp add: bundle_of_def yolo_of_def)
  have food: "is_food ?b dim_box"
    by (simp add: is_food_def dim_box_def COCO_FOOD_CLASSES_def)
  have sel: "spec_select (filter (is_food ?b) (first_boxes [[dim_box]])) = Some dim_box"
    by (simp add: first_boxes_def food spec_select_def)
  have crop: "crop_bbox ext64 img100 (box_xyxy dim_box) (5 / 100) = Inr crop0"
    by (simp add: crop_bbox_def img100_def dim_box_def crop0_def ext64_def ext0_crop
        pillow_crop_def)
  have cls: "classify_freshness ext64 ?b crop0 (1 / 10) = Inr (''fresh'', 85 / 100)"
    by (simp add: classify_freshness_def bundle_of_def heuristic_freshness_def pil_to_cv2_def
        enhance_contrast_def ext64_def ext0_def py_round_def round_half_even_def Let_def)
  have nm: "replace_space (str_lower (box_name ?b dim_box)) = ''apple''"
    by (simp add: box_name_def bundle_of_def yolo_of_def dim_box_def lower_names replace_names)
  have fl: "fl ext64 = fl64" by (simp add: ext64_def)
  have bc: "box_conf dim_box = 7 / 64" "box_xyxy dim_box = [10, 20, 50, 60]"
           "\<not> box_conf dim_box < 10 / 100"
    by (simp_all add: dim_box_def)
  have st: "spec_stage2 ext64 img100 ?b (1 / 10) dim_box
            = Inr \<lparr>food = ''apple'', freshness = ''fresh'', confidence = fl64 (5537 / 10000),
                   detected = True, bbox = Some [10, 20, 50, 60]\<rparr>"
    unfolding spec_stage2_def
    by (simp only: crop [unfolded bc(2)] cls fl sum.case prod.case bc(1,2) nm
        blend_binary64)
  show ?thesis
    unfolding run_inference_loop [OF f] sel
    by (simp only: option.case bc(3) if_False st)
qed

subsection \<open>The loader\<close>

lemma load_models_cached: "load_models L yp fp ds (Some b) = (Inr b, Some b)"
  by (simp add: load_models_def)

lemma load_models_fresh:
  assumes "load_models L yp fp ds None = (r, s)"
  shows "(case r of Inl e \<Rightarrow> s = None | Inr b \<Rightarrow> s = Some b)"
  using assms unfolding load_models_def
  by (auto simp: Let_def split: sum.splits)

lemma load_calls_cached: "load_calls calls (Some b) = (map (\<lambda>c. Inr b) calls, Some b)"
proof (induction calls)
  case Nil
  show ?case by simp
next
  case (Cons c calls)
  obtain L yp fp ds where c: "c = (L, yp, fp, ds)" by (cases c) auto
  show ?case unfolding c by (simp add: load_models_cached Cons.IH)
qed

lemma load_calls_history:
  assumes "load_calls calls None = (rs, s)"
  shows "(s = None \<and> (\<forall>r \<in> set rs. isl r))
         \<or> (\<exists>b. s = Some b \<and> Inr b \<in> set rs \<and> (\<forall>b'. Inr b' \<in> set rs \<longrightarrow> b' = b))"
  using assms
proof (induction calls arbitrary: rs s)
  case Nil
  then show ?case by simp
next
  case (Cons c calls)
  obtain L yp fp ds where c: "c = (L, yp, fp, ds)" by (cases c) auto
  obtain r s1 where first: "load_models L yp fp ds None = (r, s1)" by force
  obtain rs' s' where rest: "load_calls calls s1 = (rs', s')" by force
  have out: "rs = r # rs'" "s = s'" using Cons.prems first rest unfolding c by simp_all
  show ?case
  proof (cases r)
    case (Inl e)
    then have "s1 = None" using load_models_fresh [OF first] by simp
    then show ?thesis using Cons.IH [of rs' s'] rest out Inl by auto
  next
    case (Inr b)
    then have "s1 = Some b" using load_models_fresh [OF first] by simp
    then have "rs' = map (\<lambda>c. Inr b) calls" "s' = Some b"
      using rest load_calls_cached [of calls b] by simp_all
    then show ?thesis using out Inr by auto
  qed
qed

text \<open>
  C6.  Once a call of \<open>load_models\<close> has returned a bundle, that bundle is cached, and
  every later call, in any environment and with any arguments, returns the same bundle and
  leaves the cache unchanged; so does every sequence of later calls.
\<close>

theorem load_models_idempotent:
  assumes "load_models L yp fp ds None = (Inr b, s)"
  shows "s = Some b
         \<and> load_models L' yp' fp' ds' s = (Inr b, s)
         \<and> load_calls calls s = (map (\<lambda>c. Inr b) calls, s)"
proof -
  have s: "s = Some b" using load_models_fresh [OF assms] by simp
  show ?thesis unfolding s by (simp add: load_models_cached load_calls_cached)
qed

theorem load_models_idempotent_witness:
  "load_models ext0 ''weights/yolov8n.pt'' ''weights/freshness_classifier.pt'' ''cpu'' None
     = (Inr bundle0, Some bundle0)
   \<and> load_models ext_bad_device ''other.pt'' ''none.pt'' ''cuda'' (Some bundle0)
     = (Inr bundle0, Some bundle0)
   \<and> load_calls [(ext_bad_device, ''a.pt'', ''b.pt'', ''cuda''), (ext0, ''c.pt'', ''d.pt'', ''cpu'')]
        (Some bundle0)
     = ([Inr bundle0, Inr bundle0], Some bundle0)"
proof -
  have first: "load_models ext0 ''weights/yolov8n.pt'' ''weights/freshness_classifier.pt'' ''cpu'' None
     = (Inr bundle0, Some bundle0)"
    by (simp add: load_models_def resolve_device_def load_yolo_def load_freshness_classifier_def
        ext0_def bundle0_def bundle_of_def Let_def)
  show ?thesis
    using load_models_idempotent [OF first, of ext_bad_device "''other.pt''" "''none.pt''" "''cuda''"
        "[(ext_bad_device, ''a.pt'', ''b.pt'', ''cuda''), (ext0, ''c.pt'', ''d.pt'', ''cpu'')]"] first
    by simp
qed

text \<open>
  C7.  After any sequence of calls of \<open>load_models\<close> from the initial state,
  \<open>get_bundle\<close> raises its \<open>RuntimeError\<close> exactly when none of the calls has
  returned (each raised); it raises nothing else, and once a call has returned a bundle
  it returns that bundle.
\<close>

theorem get_bundle_after_loads:
  assumes "load_calls calls None = (rs, s)"
  shows "(get_bundle s = Inl not_loaded \<longleftrightarrow> (\<forall>r \<in> set rs. isl r))
         \<and> (\<forall>e. get_bundle s = Inl e \<longrightarrow> e = not_loaded \<and> (\<forall>r \<in> set rs. isl r))
         \<and> (\<forall>b. Inr b \<in> set rs \<longrightarrow> get_bundle s = Inr b)"
proof -
  consider (none) "s = None" "\<forall>r \<in> set rs. isl r"
    | (some) b where "s = Some b" "Inr b \<in> set rs" "\<forall>b'. Inr b' \<in> set rs \<longrightarrow> b' = b"
    using load_calls_history [OF assms] by blast
  then show ?thesis
  proof cases
    case none
    have "\<And>b. Inr b \<notin> set rs" using none(2) by force
    then show ?thesis using none by (simp add: get_bundle_def not_loaded_def)
  next
    case some
    have "\<not> (\<forall>r \<in> set rs. isl r)" using some(2) by force
    moreover have "get_bundle s = Inr b" using some(1) by (simp add: get_bundle_def)
    ultimately show ?thesis using some(3) by simp
  qed
qed

theorem get_bundle_after_loads_witness:
  "load_calls [(ext_bad_device, ''weights/yolov8n.pt'', ''w.pt'', ''cpu'')] None
     = ([Inl (RuntimeError ''invalid device string'')], None)
   \<and> get_bundle None = Inl not_loaded
   \<and> load_calls [(ext_bad_device, ''weights/yolov8n.pt'', ''w.pt'', ''cpu''),
                  (ext0, ''weights/yolov8n.pt'', ''w.pt'', ''cpu'')] None
     = ([Inl (RuntimeError ''invalid device string''), Inr bundle0], Some bundle0)
   \<and> get_bundle (Some bundle0) = Inr bundle0"
proof -
  have bad: "load_models ext_bad_device ''weights/yolov8n.pt'' ''w.pt'' ''cpu'' None
              = (Inl (RuntimeError ''invalid device string''), None)"
    by (simp add: load_models_def resolve_device_def ext_bad_device_def ext0_def)
  have good: "load_models ext0 ''weights/yolov8n.pt'' ''w.pt'' ''cpu'' None
              = (Inr bundle0, Some bundle0)"
    by (simp add: load_models_def resolve_device_def load_yolo_def load_freshness_classifier_def
        ext0_def bundle0_def bundle_of_def Let_def)
  have h1: "load_calls [(ext_bad_device, ''weights/yolov8n.pt'', ''w.pt'', ''cpu'')] None
     = ([Inl (RuntimeError ''invalid device string'')], None)"
    by (simp add: bad)
  have h2: "load_calls [(ext_bad_device, ''weights/yolov8n.pt'', ''w.pt'', ''cpu''),
                  (ext0, ''weights/yolov8n.pt'', ''w.pt'', ''cpu'')] None
     = ([Inl (RuntimeError ''invalid device string''), Inr bundle0], Some bundle0)"
    by (simp add: bad good)
  show ?thesis
    using get_bundle_after_loads [OF h1] get_bundle_after_loads [OF h2] h1 h2 by simp
qed

subsection \<open>Decoding\<close>

text \<open>
  C8.  Provided the image library's \<open>convert\<close> returns an image of the mode it is
  asked for, \<open>bytes_to_pil\<close> has exactly two outcomes: for bytes the library opens and
  converts it returns an image in RGB mode (three channels); for all other bytes it
  raises \<open>ValueError\<close>, whatever the library raised.
\<close>

theorem bytes_to_pil_outcomes:
  assumes "\<forall>i m i'. convert L i m = Inr i' \<longrightarrow> img_mode i' = m"
  shows "(decodable L bs \<longrightarrow> (\<exists>rgb. bytes_to_pil L bs = Inr rgb \<and> img_mode rgb = ''RGB''))
         \<and> (\<not> decodable L bs \<longrightarrow> (\<exists>m. bytes_to_pil L bs = Inl (ValueError m)))"
  using assms unfolding decodable_def bytes_to_pil_def
  by (auto split: sum.splits)

theorem bytes_to_pil_outcomes_witness:
  "decodable ext0 [1] \<and> bytes_to_pil ext0 [1] = Inr rgb1 \<and> img_mode rgb1 = ''RGB''
   \<and> \<not> decodable ext0 []
   \<and> bytes_to_pil ext0 [] = Inl (ValueError ''Cannot decode image: cannot identify image file'')"
proof -
  have c: "\<forall>i m i'. convert ext0 i m = Inr i' \<longrightarrow> img_mode i' = m"
    by (auto simp: ext0_def)
  have d1: "decodable ext0 [1]" and d0: "\<not> decodable ext0 []"
    by (simp_all add: decodable_def ext0_def)
  have e1: "bytes_to_pil ext0 [1] = Inr rgb1"
    by (simp add: bytes_to_pil_def ext0_def rgb1_def)
  have e0: "bytes_to_pil ext0 [] = Inl (ValueError ''Cannot decode image: cannot identify image file'')"
    by (simp add: bytes_to_pil_def ext0_def)
  show ?thesis
    using bytes_to_pil_outcomes [OF c, of "[1]"] bytes_to_pil_outcomes [OF c, of "[]"] d1 d0 e1 e0
    by (simp add: rgb1_def)
qed

subsection \<open>The endpoint\<close>

lemma detector_failure_propagates:
  "forward (yolo bundle) img = Inl e \<Longrightarrow> run_inference L img bundle u = Inl e"
  by (simp add: run_inference_def)

lemma classifier_failure:
  assumes "freshness_classifier bundle = Some clf"
      and "to_freshness_tensor L crop = Inr t"
      and "tensor_to L t (device bundle) = Inr tensor"
      and "clf tensor = Inl e"
  shows "classify_freshness L bundle crop u = Inl e"
  using assms by (simp add: classify_freshness_def)

lemma stage2_failure_propagates:
  assumes "forward (yolo bundle) img = Inr results"
      and "spec_select (filter (is_food bundle) (first_boxes results)) = Some w"
      and "10 / 100 \<le> box_conf w"
      and "crop_bbox L img (box_xyxy w) (5 / 100) = Inr crop"
      and "classify_freshness L bundle crop u = Inl e"
  shows "run_inference L img bundle u = Inl e"
  using assms(2-5) by (simp add: run_inference_loop [OF assms(1)] spec_stage2_def)

lemma predict_after_checks:
  assumes "content_type file \<in> Some ` SUPPORTED_CONTENT_TYPES"
      and "length (file_bytes file) \<le> MAX_FILE_SIZE_BYTES"
  shows "predict L bundle_var file t0 t1 u =
     (case bytes_to_pil L (file_bytes file) of
        Inl (ValueError m) \<Rightarrow> HTTPException 400 m
      | Inl e \<Rightarrow> Uncaught e
      | Inr pil_image \<Rightarrow>
          (case (case get_bundle bundle_var of
                   Inl e \<Rightarrow> Inl e
                 | Inr bundle \<Rightarrow> run_inference L pil_image bundle u) of
             Inl (RuntimeError m) \<Rightarrow> generic_500
           | Inl e \<Rightarrow> Uncaught e
           | Inr result \<Rightarrow>
               PredictionResponse (food result) (freshness result)
                 (confidence result) (detected result) (py_round ((t1 - t0) * 1000) 2)))"
  using assms unfolding predict_def generic_500_def Let_def by (simp add: not_less)

text \<open>
  C9, as the code has it.  For an upload that passes the content-type and size checks and
  decodes: a failure of the detector call, and a failure of the classifier call on the
  crop of the selected box, leave \<open>run_inference\<close> unchanged; a failure of
  \<open>run_inference\<close> that is a \<open>RuntimeError\<close> becomes the 500 response with the
  generic message, and a failure of any other class leaves \<open>predict\<close> uncaught; a
  bundle that was never loaded gives the same 500 response.
\<close>

theorem predict_inference_failure:
  assumes "content_type file \<in> Some ` SUPPORTED_CONTENT_TYPES"
      and "length (file_bytes file) \<le> MAX_FILE_SIZE_BYTES"
      and "bytes_to_pil L (file_bytes file) = Inr img"
  shows "(forward (yolo bundle) img = Inl e \<longrightarrow> run_inference L img bundle u = Inl e)
         \<and> (forward (yolo bundle) img = Inr results
              \<and> spec_select (filter (is_food bundle) (first_boxes results)) = Some w
              \<and> 10 / 100 \<le> box_conf w
              \<and> crop_bbox L img (box_xyxy w) (5 / 100) = Inr crop
              \<and> freshness_classifier bundle = Some clf
              \<and> to_freshness_tensor L crop = Inr t
              \<and> tensor_to L t (device bundle) = Inr tensor
              \<and> clf tensor = Inl e
              \<longrightarrow> run_inference L img bundle u = Inl e)
         \<and> (run_inference L img bundle u = Inl e \<longrightarrow>
              predict L (Some bundle) file t0 t1 u =
                (case e of
                   RuntimeError m \<Rightarrow> HTTPException 500 ''Model inference failed. Please try again.''
                 | _ \<Rightarrow> Uncaught e))
         \<and> predict L None file t0 t1 u
             = HTTPException 500 ''Model inference failed. Please try again.''"
proof -
  have a: "forward (yolo bundle) img = Inl e \<longrightarrow> run_inference L img bundle u = Inl e"
    by (simp add: detector_failure_propagates)
  have a': "run_inference L img bundle u = Inl e"
    if "forward (yolo bundle) img = Inr results"
       "spec_select (filter (is_food bundle) (first_boxes results)) = Some w"
       "10 / 100 \<le> box_conf w"
       "crop_bbox L img (box_xyxy w) (5 / 100) = Inr crop"
       "freshness_classifier bundle = Some clf"
       "to_freshness_tensor L crop = Inr t"
       "tensor_to L t (device bundle) = Inr tensor"
       "clf tensor = Inl e"
    using stage2_failure_propagates [OF that(1-4) classifier_failure [OF that(5-8)]] .
  have b: "predict L (Some bundle) file t0 t1 u =
             (case e of
                RuntimeError m \<Rightarrow> HTTPException 500 ''Model inference failed. Please try again.''
              | _ \<Rightarrow> Uncaught e)"
    if "run_inference L img bundle u = Inl e"
    using that assms(3) unfolding predict_after_checks [OF assms(1,2)]
    by (cases e) (simp_all add: get_bundle_def generic_500_def)
  have c: "predict L None file t0 t1 u
             = HTTPException 500 ''Model inference failed. Please try again.''"
    using assms(3) unfolding predict_after_checks [OF assms(1,2)]
    by (simp add: get_bundle_def generic_500_def)
  show ?thesis using a a' b c by blast
qed

theorem predict_inference_failure_witness:
  "content_type (png_file [1]) \<in> Some ` SUPPORTED_CONTENT_TYPES
   \<and> length (file_bytes (png_file [1])) \<le> MAX_FILE_SIZE_BYTES
   \<and> bytes_to_pil ext0 (file_bytes (png_file [1])) = Inr rgb1
   \<and> forward (yolo (bundle_of (yolo_of (Inl (RuntimeError ''CUDA error''))) None)) rgb1
       = Inl (RuntimeError ''CUDA error'')
   \<and> predict ext0 (Some (bundle_of (yolo_of (Inl (RuntimeError ''CUDA error''))) None))
        (png_file [1]) 0 1 (1 / 10)
       = HTTPException 500 ''Model inference failed. Please try again.''
   \<and> crop_bbox ext0 rgb1 (box_xyxy apple_box) (5 / 100) = Inr crop1
   \<and> to_freshness_tensor ext0 crop1 = Inr tensor0
   \<and> tensor_to ext0 tensor0 ''cpu'' = Inr tensor0
   \<and> failing_clf tensor0 = Inl (RuntimeError ''CUDA error'')
   \<and> run_inference ext0 rgb1 (bundle_of (yolo_of (Inr [[apple_box]])) (Some failing_clf)) (1 / 10)
       = Inl (RuntimeError ''CUDA error'')
   \<and> predict ext0 (Some (bundle_of (yolo_of (Inr [[apple_box]])) (Some failing_clf)))
        (png_file [1]) 0 1 (1 / 10)
       = HTTPException 500 ''Model inference failed. Please try again.''"
proof -
  let ?d = "bundle_of (yolo_of (Inl (RuntimeError ''CUDA error''))) None"
  let ?c = "bundle_of (yolo_of (Inr [[apple_box]])) (Some failing_clf)"
  have f: "forward (yolo ?d) rgb1 = Inl (RuntimeError ''CUDA error'')"
    by (simp add: bundle_of_def yolo_of_def)
  have g: "forward (yolo ?c) rgb1 = Inr [[apple_box]]"
    by (simp add: bundle_of_def yolo_of_def)
  have sel: "spec_select (filter (is_food ?c) (first_boxes [[apple_box]])) = Some apple_box"
    by (simp add: first_boxes_def is_food0 spec_select_def)
  have c10: "(10::real) / 100 \<le> box_conf apple_box" by (simp add: apple_box_def)
  have crop: "crop_bbox ext0 rgb1 (box_xyxy apple_box) (5 / 100) = Inr crop1"
    by (simp add: crop_bbox_def rgb1_def apple_box_def crop1_def ext0_crop pillow_crop_def)
  have clf: "freshness_classifier ?c = Some failing_clf" by (simp add: bundle_of_def)
  have tt: "to_freshness_tensor ext0 crop1 = Inr tensor0"
    by (simp add: to_freshness_tensor_def ext0_def tensor0_def)
  have dev: "tensor_to ext0 tensor0 (device ?c) = Inr tensor0"
    by (simp add: ext0_def)
  have dev': "device ?c = ''cpu''" by (simp add: bundle_of_def)
  have fail: "failing_clf tensor0 = Inl (RuntimeError ''CUDA error'')"
    by (simp add: failing_clf_def)
  note d = predict_inference_failure [OF png_supported small1 decode1,
        of ?d "RuntimeError ''CUDA error''" "1 / 10" "[]" apple_box crop1 failing_clf
           tensor0 tensor0 0 1]
  note c = predict_inference_failure [OF png_supported small1 decode1,
        of ?c "RuntimeError ''CUDA error''" "1 / 10" "[[apple_box]]" apple_box crop1
           failing_clf tensor0 tensor0 0 1]
  have run: "run_inference ext0 rgb1 ?c (1 / 10) = Inl (RuntimeError ''CUDA error'')"
    using c g sel c10 crop clf tt dev fail by blast
  have p1: "predict ext0 (Some ?d) (png_file [1]) 0 1 (1 / 10)
              = HTTPException 500 ''Model inference failed. Please try again.''"
    using d f by simp
  have p2: "predict ext0 (Some ?c) (png_file [1]) 0 1 (1 / 10)
              = HTTPException 500 ''Model inference failed. Please try again.''"
    using c run by simp
  show ?thesis
    using png_supported small1 decode1 f p1 crop tt dev fail run p2 by (simp add: dev')
qed

text \<open>
  C9 as stated fails: a \<open>ValueError\<close> raised by the detector is not translated into the
  500 response, it leaves \<open>predict\<close> as it is.
\<close>

theorem predict_uncaught_counterexample:
  "predict ext0 (Some (bundle_of (yolo_of (Inl (ValueError ''invalid input shape''))) None))
     (png_file [1]) 0 1 (1 / 10)
   = Uncaught (ValueError ''invalid input shape'')"
  unfolding predict_after_checks [OF png_supported small1] decode1
  by (simp add: get_bundle_def run_inference_def bundle_of_def yolo_of_def)

subsection \<open>Decimal digits\<close>

lemma digit_val_char: "n < 10 \<Longrightarrow> digit_val (digit_char n) = n"
proof -
  assume "n < 10"
  then have "n = 9 \<or> n = 8 \<or> n = 7 \<or> n = 6 \<or> n = 5
             \<or> n = 4 \<or> n = 3 \<or> n = 2 \<or> n = 1 \<or> n = 0"
    by presburger
  then show ?thesis
    by (elim disjE) (simp_all add: digit_val_def digit_char_def)
qed

lemma decimal_value_snoc: "decimal_value (ds @ [c]) = 10 * decimal_value ds + digit_val c"
  by (simp add: decimal_value_def)

lemma str_nat_decimal: "decimal_value (str_nat n) = n"
proof (induction n rule: str_nat.induct)
  case (1 n)
  show ?case
  proof (cases "n < 10")
    case True
    then show ?thesis
      by (subst str_nat.simps) (simp add: decimal_value_def digit_val_char)
  next
    case False
    have "decimal_value (str_nat n)
          = 10 * decimal_value (str_nat (n div 10)) + digit_val (digit_char (n mod 10))"
      using False by (subst str_nat.simps) (simp add: decimal_value_snoc)
    also have "\<dots> = 10 * (n div 10) + n mod 10"
      using "1.IH" [OF False] by (simp add: digit_val_char)
    finally show ?thesis by simp
  qed
qed

text \<open>
  C10.  For an upload of a supported content type, \<open>predict\<close> raises the 422 error when
  the upload is longer than 10 * 1024 * 1024 bytes, with the detail
  "File too large (N KB). Max 10 MB allowed." where N is the decimal numeral of the length
  divided by 1024; an upload of at most that length never gets a 422 and goes on to
  decoding (a decoding failure gives the 400 error with the decoder's message).
\<close>

theorem predict_size_check:
  assumes "content_type file \<in> Some ` SUPPORTED_CONTENT_TYPES"
  shows "(10 * 1024 * 1024 < length (file_bytes file) \<longrightarrow>
            predict L bundle_var file t0 t1 u
              = HTTPException 422
                  (''File too large ('' @ str_nat (length (file_bytes file) div 1024)
                     @ '' KB). Max 10 MB allowed.'')
            \<and> decimal_value (str_nat (length (file_bytes file) div 1024))
                = length (file_bytes file) div 1024)
         \<and> (length (file_bytes file) \<le> 10 * 1024 * 1024 \<longrightarrow>
              (\<forall>d. predict L bundle_var file t0 t1 u \<noteq> HTTPException 422 d)
              \<and> (\<forall>e. bytes_to_pil L (file_bytes file) = Inl e \<longrightarrow>
                     predict L bundle_var file t0 t1 u = HTTPException 400 (exc_str e)))"
proof -
  have big: "predict L bundle_var file t0 t1 u
              = HTTPException 422
                  (''File too large ('' @ str_nat (length (file_bytes file) div 1024)
                     @ '' KB). Max 10 MB allowed.'')"
    if "10 * 1024 * 1024 < length (file_bytes file)"
    using that assms unfolding predict_def MAX_FILE_SIZE_BYTES_def Let_def by simp
  have small: "(\<forall>d. predict L bundle_var file t0 t1 u \<noteq> HTTPException 422 d)
              \<and> (\<forall>e. bytes_to_pil L (file_bytes file) = Inl e \<longrightarrow>
                     predict L bundle_var file t0 t1 u = HTTPException 400 (exc_str e))"
    if le: "length (file_bytes file) \<le> 10 * 1024 * 1024"
  proof -
    have le': "length (file_bytes file) \<le> MAX_FILE_SIZE_BYTES"
      using le by (simp add: MAX_FILE_SIZE_BYTES_def)
    have dec: "\<And>e. bytes_to_pil L (file_bytes file) = Inl e \<Longrightarrow> \<exists>m. e = ValueError m"
      unfolding bytes_to_pil_def by (auto split: sum.splits)
    have p1: "\<forall>e. bytes_to_pil L (file_bytes file) = Inl e \<longrightarrow>
                     predict L bundle_var file t0 t1 u = HTTPException 400 (exc_str e)"
      using dec unfolding predict_after_checks [OF assms le'] by fastforce
    have p2: "predict L bundle_var file t0 t1 u \<noteq> HTTPException 422 d" for d
      unfolding predict_after_checks [OF assms le'] generic_500_def PredictionResponse_def
      by (auto split: sum.splits exc.splits)
    show ?thesis using p1 p2 by blast
  qed
  show ?thesis using big small str_nat_decimal by blast
qed

theorem predict_size_check_witness:
  "content_type (png_file (replicate 10485761 0)) \<in> Some ` SUPPORTED_CONTENT_TYPES
   \<and> 10 * 1024 * 1024 < length (file_bytes (png_file (replicate 10485761 0)))
   \<and> predict ext0 None (png_file (replicate 10485761 0)) 0 1 (1 / 10)
       = HTTPException 422 ''File too large (10240 KB). Max 10 MB allowed.''
   \<and> decimal_value ''10240'' = 10240
   \<and> length (file_bytes (png_file (replicate 10485760 0))) \<le> 10 * 1024 * 1024
   \<and> bytes_to_pil ext_no_codec (file_bytes (png_file (replicate 10485760 0)))
       = Inl (ValueError ''Cannot decode image: cannot identify image file'')
   \<and> predict ext_no_codec None (png_file (replicate 10485760 0)) 0 1 (1 / 10)
       = HTTPException 400 ''Cannot decode image: cannot identify image file''"
proof -
  have big: "10 * 1024 * 1024 < length (file_bytes (png_file (replicate 10485761 0)))"
    by (simp add: png_file_def)
  have le: "length (file_bytes (png_file (replicate 10485760 0))) \<le> 10 * 1024 * 1024"
    by (simp add: png_file_def)
  have dec: "bytes_to_pil ext_no_codec (file_bytes (png_file (replicate 10485760 0)))
       = Inl (ValueError ''Cannot decode image: cannot identify image file'')"
    by (simp add: bytes_to_pil_def ext_no_codec_def)
  have kbs: "length (file_bytes (png_file (replicate 10485761 (0::byte)))) div 1024 = 10240"
    by (simp add: png_file_def)
  have dv: "decimal_value ''10240'' = 10240"
    by (simp add: decimal_value_def digit_val_def)
  show ?thesis
    using predict_size_check [OF png_supported, of "replicate 10485761 0" ext0 None 0 1 "1 / 10"]
      predict_size_check [OF png_supported, of "replicate 10485760 0" ext_no_codec None 0 1 "1 / 10"]
      png_supported big le dec dv
    by (simp add: kbs kb)
qed

end
